theory Spec2Isabelle
  imports Main "HOL-Library.Sublist"
begin

section \<open>Python values\<close>

text \<open>
  A Python \<open>str\<close> is a sequence of Unicode code points, and its length, its indexing and
  the regular expressions of \<open>re\<close> all count code points. A string is therefore a list of
  code points (natural numbers), not a list of 8-bit characters: the constants of
  \<open>main.py\<close> are Chinese, and the class \<open>\d\<close> of \<open>re\<close> is wider than ASCII.
  \<open>bytes\<close> are lists of numbers below 256.
\<close>

type_synonym str = "nat list"
type_synonym bytes = "nat list"

definition ascii :: "string \<Rightarrow> str" where
  "ascii s = map of_char s"

text \<open>
  Exceptions are values. \<open>RuntimeError\<close> carries its message and its \<open>__cause__\<close>
  (\<open>raise ... from exc\<close>). \<open>External\<close> stands for whatever an external library, the
  operating system or the network raises inside a call; the number only tells such
  exceptions apart.
\<close>

datatype exn =
    AttributeError
  | KeyError str
  | IndexError
  | ValueError
  | EOFError
  | UnicodeEncodeError
  | FileNotFoundError
  | RuntimeError str "exn option"
  | External nat

subsection \<open>Decimal digits\<close>

text \<open>
  In a \<open>str\<close> pattern \<open>\d\<close> matches every character of the Unicode category Nd, and
  \<open>int()\<close> reads every such character as its decimal value. The category is made of
  runs of ten consecutive code points with the values 0 to 9; \<open>decimal_zeros\<close> lists the
  first code point of every run (Unicode 14.0.0, the table of CPython 3.11).
\<close>

definition decimal_zeros :: "nat list" where
  "decimal_zeros =
    [0x30, 0x660, 0x6F0, 0x7C0, 0x966, 0x9E6, 0xA66, 0xAE6, 0xB66, 0xBE6, 0xC66, 0xCE6,
     0xD66, 0xDE6, 0xE50, 0xED0, 0xF20, 0x1040, 0x1090, 0x17E0, 0x1810, 0x1946, 0x19D0,
     0x1A80, 0x1A90, 0x1B50, 0x1BB0, 0x1C40, 0x1C50, 0xA620, 0xA8D0, 0xA900, 0xA9D0,
     0xA9F0, 0xAA50, 0xABF0, 0xFF10, 0x104A0, 0x10D30, 0x11066, 0x110F0, 0x11136,
     0x111D0, 0x112F0, 0x11450, 0x114D0, 0x11650, 0x116C0, 0x11730, 0x118E0, 0x11950,
     0x11C50, 0x11D50, 0x11DA0, 0x16A60, 0x16AC0, 0x16B50, 0x1D7CE, 0x1D7D8, 0x1D7E2,
     0x1D7EC, 0x1D7F6, 0x1E140, 0x1E2F0, 0x1E950, 0x1FBF0]"

definition decimal_value :: "nat \<Rightarrow> nat option" where
  "decimal_value c =
    (case find (\<lambda>z. z \<le> c \<and> c < z + 10) decimal_zeros of
       None \<Rightarrow> None
     | Some z \<Rightarrow> Some (c - z))"

definition is_digit :: "nat \<Rightarrow> bool" where
  "is_digit c = (decimal_value c \<noteq> None)"

definition is_ascii_digit :: "nat \<Rightarrow> bool" where
  "is_ascii_digit c = (0x30 \<le> c \<and> c \<le> 0x39)"

text \<open>
  \<open>int(s)\<close> for a string \<open>s\<close> of decimal digits, which is all that
  \<open>parse_version_number\<close> passes to it (the groups of \<open>\d+\<close>). The signs, blanks and
  underscores that \<open>int()\<close> accepts as well never reach it there. The interpreter
  refuses, with \<open>ValueError\<close>, to convert a string of more than
  \<open>sys.get_int_max_str_digits()\<close> digits, leading zeros counted; the limit is 4300
  unless it is changed, and \<open>main.py\<close> does not change it.
\<close>

definition int_max_str_digits :: nat where
  "int_max_str_digits = 4300"

fun int_digits :: "int \<Rightarrow> str \<Rightarrow> exn + int" where
  "int_digits acc [] = Inr acc"
| "int_digits acc (c # cs) =
    (case decimal_value c of
       None \<Rightarrow> Inl ValueError
     | Some d \<Rightarrow> int_digits (10 * acc + int d) cs)"

definition py_int :: "str \<Rightarrow> exn + int" where
  "py_int s =
    (if s = [] then Inl ValueError
     else if length s > int_max_str_digits then Inl ValueError
     else int_digits 0 s)"

section \<open>Version numbers\<close>

text \<open>
  \<open>re.match(r"v?(?P<major>\d+)\.(?P<minor>\d+)\.(?P<patch>\d+)", s)\<close> matches at the
  start of \<open>s\<close> and nowhere asks for its end. No digit is a \<open>v\<close> or a dot, so
  backtracking never finds a second way: the optional \<open>v\<close> is taken when it is there,
  each \<open>\d+\<close> takes the whole run of digits before it, and the match fails where a run is
  empty or a dot is missing. \<open>match_version\<close> returns the three groups.
\<close>

definition strip_v :: "str \<Rightarrow> str" where
  \<comment> \<open>\<open>v?\<close>\<close>
  "strip_v s = (case s of [] \<Rightarrow> [] | c # r \<Rightarrow> if c = 0x76 then r else s)"

definition digits :: "str \<Rightarrow> (str \<times> str) option" where
  \<comment> \<open>\<open>(\d+)\<close>: the group and what follows it\<close>
  "digits s =
    (let g = takeWhile is_digit s
     in if g = [] then None else Some (g, dropWhile is_digit s))"

definition dot :: "str \<Rightarrow> str option" where
  \<comment> \<open>\<open>\.\<close>\<close>
  "dot s = (case s of [] \<Rightarrow> None | c # r \<Rightarrow> if c = 0x2E then Some r else None)"

definition match_version :: "str \<Rightarrow> (str \<times> str \<times> str) option" where
  "match_version s =
    (case digits (strip_v s) of
       None \<Rightarrow> None
     | Some (major, s1) \<Rightarrow>
         (case dot s1 of
            None \<Rightarrow> None
          | Some s2 \<Rightarrow>
              (case digits s2 of
                 None \<Rightarrow> None
               | Some (minor, s3) \<Rightarrow>
                   (case dot s3 of
                      None \<Rightarrow> None
                    | Some s4 \<Rightarrow>
                        (case digits s4 of
                           None \<Rightarrow> None
                         | Some (patch, s5) \<Rightarrow> Some (major, minor, patch))))))"

text \<open>
  \<open>parse_version_number\<close>: with no match \<open>re.match\<close> returns \<open>None\<close> and
  \<open>.group\<close> raises \<open>AttributeError\<close>.
\<close>

definition parse_version_number :: "str \<Rightarrow> exn + (int \<times> int \<times> int)" where
  "parse_version_number s =
    (case match_version s of
       None \<Rightarrow> Inl AttributeError
     | Some (major, minor, patch) \<Rightarrow>
         (case py_int major of
            Inl e \<Rightarrow> Inl e
          | Inr a \<Rightarrow>
              (case py_int minor of
                 Inl e \<Rightarrow> Inl e
               | Inr b \<Rightarrow>
                   (case py_int patch of
                      Inl e \<Rightarrow> Inl e
                    | Inr c \<Rightarrow> Inr (a, b, c)))))"

text \<open>
  The shape the specification gives to a version string: an optional leading \<open>v\<close>,
  then three runs of decimal digits separated by dots, and nothing else.
\<close>

definition digit_string :: "str \<Rightarrow> bool" where
  "digit_string ds = (ds \<noteq> [] \<and> list_all is_digit ds)"

definition version_shape :: "str \<Rightarrow> str \<Rightarrow> str \<Rightarrow> str \<Rightarrow> bool" where
  "version_shape s a b c =
    ((s = a @ 0x2E # b @ 0x2E # c \<or> s = 0x76 # a @ 0x2E # b @ 0x2E # c) \<and>
     digit_string a \<and> digit_string b \<and> digit_string c)"

text \<open>
  The same shape as a test that can be run: the string, without a leading \<open>v\<close>, splits
  at its dots into exactly three runs of decimal digits.
\<close>

fun split_on :: "nat \<Rightarrow> str \<Rightarrow> str list" where
  "split_on d [] = [[]]"
| "split_on d (c # cs) =
    (if c = d then [] # split_on d cs
     else case split_on d cs of
            [] \<Rightarrow> [[c]]
          | p # ps \<Rightarrow> (c # p) # ps)"

fun join :: "nat \<Rightarrow> str list \<Rightarrow> str" where
  "join d [] = []"
| "join d [p] = p"
| "join d (p # q # ps) = p @ d # join d (q # ps)"

definition spec_version_string :: "str \<Rightarrow> bool" where
  "spec_version_string s =
    (let body = (case s of [] \<Rightarrow> [] | c # r \<Rightarrow> if c = 0x76 then r else s);
         parts = split_on 0x2E body
     in length parts = 3 \<and> list_all digit_string parts)"

text \<open>
  \<open>check_update\<close> compares two parsed versions with \<open>>\<close> on tuples. Python
  compares tuples item by item: the first pair of items that differ decides, and two
  tuples of the same length with no such pair are equal, so neither is greater.
\<close>

definition tuple_gt :: "int \<times> int \<times> int \<Rightarrow> int \<times> int \<times> int \<Rightarrow> bool" where
  "tuple_gt x y =
    (case (x, y) of
       ((a1, a2, a3), (b1, b2, b3)) \<Rightarrow>
         if a1 \<noteq> b1 then a1 > b1
         else if a2 \<noteq> b2 then a2 > b2
         else if a3 \<noteq> b3 then a3 > b3
         else False)"

text \<open>
  The comparison of the specification: major first, then minor, then patch.
\<close>

datatype ordering = Less | Equal | Greater

definition compare :: "int \<times> int \<times> int \<Rightarrow> int \<times> int \<times> int \<Rightarrow> ordering" where
  "compare x y =
    (case (x, y) of
       ((a1, a2, a3), (b1, b2, b3)) \<Rightarrow>
         if a1 < b1 then Less else if b1 < a1 then Greater
         else if a2 < b2 then Less else if b2 < a2 then Greater
         else if a3 < b3 then Less else if b3 < a3 then Greater
         else Equal)"

section \<open>Fund codes\<close>

text \<open>
  \<open>main\<close> keeps the lines that \<open>re.fullmatch(r"\d{6}", code)\<close> matches:
  \<open>codes = list(filter(lambda code: re.fullmatch(r"\d{6}", code), codes))\<close>.
  The whole line has to be six characters of the class \<open>\d\<close>.
\<close>

definition fullmatch_six_digits :: "str \<Rightarrow> bool" where
  "fullmatch_six_digits code = (length code = 6 \<and> list_all is_digit code)"

definition clean_codes :: "str list \<Rightarrow> str list" where
  "clean_codes codes = filter fullmatch_six_digits codes"

text \<open>The test of the specification: exactly six ASCII digits.\<close>

definition six_ascii_digits :: "str \<Rightarrow> bool" where
  "six_ascii_digits code = (length code = 6 \<and> list_all is_ascii_digit code)"

section \<open>The latest release\<close>

text \<open>
  The release metadata is the JSON object that the GitHub endpoint returns, after
  \<open>json.loads\<close>: the keys read by \<open>main.py\<close> are \<open>tag_name\<close> and \<open>assets\<close>, and
  an asset is a dictionary whose values under \<open>name\<close> and \<open>url\<close> are strings. The
  network is a parameter: \<open>release_for_version\<close> and \<open>release_for_asset\<close> are the
  outcomes of the two requests for the metadata, \<open>download\<close> that of the request for an
  asset's bytes (sent with the header \<open>Accept: application/octet-stream\<close>).
\<close>

type_synonym asset = "str \<rightharpoonup> str"

record release =
  tag_name :: "str option"
  assets :: "asset list option"

record net =
  release_for_version :: "exn + release"
  release_for_asset :: "exn + release"
  download :: "str \<Rightarrow> exn + bytes"

definition get_latest_released_version :: "net \<Rightarrow> exn + str" where
  "get_latest_released_version n =
    (case release_for_version n of
       Inl e \<Rightarrow> Inl e
     | Inr json_data \<Rightarrow>
         (case tag_name json_data of
            None \<Rightarrow> Inl (KeyError (ascii ''tag_name''))
          | Some t \<Rightarrow> Inr t))"

text \<open>
  \<open>list(filter(lambda asset: asset["name"] == name, assets))\<close>: the assets are tested
  from left to right, and an asset without the key raises \<open>KeyError\<close>.
\<close>

fun candidates :: "str \<Rightarrow> asset list \<Rightarrow> exn + asset list" where
  "candidates name [] = Inr []"
| "candidates name (a # as) =
    (case a (ascii ''name'') of
       None \<Rightarrow> Inl (KeyError (ascii ''name''))
     | Some n \<Rightarrow>
         (case candidates name as of
            Inl e \<Rightarrow> Inl e
          | Inr cs \<Rightarrow> Inr (if n = name then a # cs else cs)))"

definition no_asset_message :: "str \<Rightarrow> str" where
  "no_asset_message name =
    ascii ''No asset with name '' @ name @ ascii '' can be found in the latest release''"

definition many_assets_message :: "str \<Rightarrow> str" where
  "many_assets_message name =
    ascii ''More than one assets with name '' @ name @
    ascii '' are found in the latest release''"

definition get_latest_released_asset :: "net \<Rightarrow> str \<Rightarrow> exn + bytes" where
  "get_latest_released_asset n name =
    (case release_for_asset n of
       Inl e \<Rightarrow> Inl e
     | Inr json_data \<Rightarrow>
         (case assets json_data of
            None \<Rightarrow> Inl (KeyError (ascii ''assets''))
          | Some as \<Rightarrow>
              (case candidates name as of
                 Inl e \<Rightarrow> Inl e
               | Inr cs \<Rightarrow>
                   if length cs = 0 then Inl (RuntimeError (no_asset_message name) None)
                   else if length cs > 1 then
                     Inl (RuntimeError (many_assets_message name) None)
                   else
                     (case cs of
                        [] \<Rightarrow> Inl IndexError
                      | asset # _ \<Rightarrow>
                          (case asset (ascii ''url'') of
                             None \<Rightarrow> Inl (KeyError (ascii ''url''))
                           | Some u \<Rightarrow> download n u)))))"

section \<open>Self-update\<close>

definition version :: str where
  \<comment> \<open>\<open>__version__\<close>\<close>
  "version = ascii ''0.2.0''"

definition RELEASE_ASSET_NAME :: str where
  "RELEASE_ASSET_NAME = ascii ''fund-info-fetcher-win64.zip''"

definition RELEASE_EXECUTABLE_NAME :: str where
  \<comment> \<open>seven Chinese characters and \<open>.exe\<close>\<close>
  "RELEASE_EXECUTABLE_NAME =
    [0x57FA, 0x91D1, 0x4FE1, 0x606F, 0x751F, 0x6210, 0x5668, 0x2E, 0x65, 0x78, 0x65]"

subsection \<open>The two codecs\<close>

text \<open>
  \<open>RELEASE_EXECUTABLE_NAME.encode("gbk").decode("cp437")\<close> uses two codecs of the
  Python library. \<open>gbk\<close> encodes ASCII as itself and every other character by its
  table, and raises \<open>UnicodeEncodeError\<close> for a character the table does not have. The
  table is a parameter, given by the host; all that is said of it is that it has the
  rows of \<open>gbk_table\<close>, the seven Chinese characters of the name. \<open>cp437\<close> decodes every byte: the
  bytes below 128 as ASCII and the others by \<open>cp437_high\<close>, the upper half of the code
  page. Numbers of 256 and more are no bytes and are left as they are.
\<close>

definition gbk_table :: "(nat \<times> bytes) list" where
  "gbk_table =
    [(0x57FA, [0xBB, 0xF9]), (0x91D1, [0xBD, 0xF0]), (0x4FE1, [0xD0, 0xC5]),
     (0x606F, [0xCF, 0xA2]), (0x751F, [0xC9, 0xFA]), (0x6210, [0xB3, 0xC9]),
     (0x5668, [0xC6, 0xF7])]"

fun encode_gbk :: "(nat \<rightharpoonup> bytes) \<Rightarrow> str \<Rightarrow> exn + bytes" where
  "encode_gbk t [] = Inr []"
| "encode_gbk t (c # cs) =
    (case (if c < 0x80 then Some [c] else t c) of
       None \<Rightarrow> Inl UnicodeEncodeError
     | Some bs \<Rightarrow>
         (case encode_gbk t cs of
            Inl e \<Rightarrow> Inl e
          | Inr r \<Rightarrow> Inr (bs @ r)))"

definition cp437_high :: "nat list" where
  "cp437_high =
    [0xC7, 0xFC, 0xE9, 0xE2, 0xE4, 0xE0, 0xE5, 0xE7, 0xEA, 0xEB, 0xE8, 0xEF, 0xEE, 0xEC,
     0xC4, 0xC5, 0xC9, 0xE6, 0xC6, 0xF4, 0xF6, 0xF2, 0xFB, 0xF9, 0xFF, 0xD6, 0xDC, 0xA2,
     0xA3, 0xA5, 0x20A7, 0x192, 0xE1, 0xED, 0xF3, 0xFA, 0xF1, 0xD1, 0xAA, 0xBA, 0xBF,
     0x2310, 0xAC, 0xBD, 0xBC, 0xA1, 0xAB, 0xBB, 0x2591, 0x2592, 0x2593, 0x2502, 0x2524,
     0x2561, 0x2562, 0x2556, 0x2555, 0x2563, 0x2551, 0x2557, 0x255D, 0x255C, 0x255B,
     0x2510, 0x2514, 0x2534, 0x252C, 0x251C, 0x2500, 0x253C, 0x255E, 0x255F, 0x255A,
     0x2554, 0x2569, 0x2566, 0x2560, 0x2550, 0x256C, 0x2567, 0x2568, 0x2564, 0x2565,
     0x2559, 0x2558, 0x2552, 0x2553, 0x256B, 0x256A, 0x2518, 0x250C, 0x2588, 0x2584,
     0x258C, 0x2590, 0x2580, 0x3B1, 0xDF, 0x393, 0x3C0, 0x3A3, 0x3C3, 0xB5, 0x3C4, 0x3A6,
     0x398, 0x3A9, 0x3B4, 0x221E, 0x3C6, 0x3B5, 0x2229, 0x2261, 0xB1, 0x2265, 0x2264,
     0x2320, 0x2321, 0xF7, 0x2248, 0xB0, 0x2219, 0xB7, 0x221A, 0x207F, 0xB2, 0x25A0, 0xA0]"

definition decode_cp437 :: "bytes \<Rightarrow> str" where
  "decode_cp437 bs =
    map (\<lambda>b. if b < 0x80 then b else if b < 0x100 then cp437_high ! (b - 0x80) else b) bs"

definition name_repair :: "(nat \<rightharpoonup> bytes) \<Rightarrow> str \<Rightarrow> exn + str" where
  \<comment> \<open>\<open>true_name.encode("gbk").decode("cp437")\<close>\<close>
  "name_repair t true_name =
    (case encode_gbk t true_name of
       Inl e \<Rightarrow> Inl e
     | Inr bs \<Rightarrow> Inr (decode_cp437 bs))"

subsection \<open>Paths and files\<close>

text \<open>
  \<open>os.path.splitext\<close> splits at the last dot of the last path component, unless that
  component has only dots before it. The path separators are those of the platform.
\<close>

datatype os = Posix | Windows

definition seps :: "os \<Rightarrow> nat list" where
  "seps platform = (case platform of Posix \<Rightarrow> [0x2F] | Windows \<Rightarrow> [0x5C, 0x2F])"

definition rfind :: "(nat \<Rightarrow> bool) \<Rightarrow> str \<Rightarrow> int" where
  \<comment> \<open>the index of the last character with the property, or \<open>-1\<close>\<close>
  "rfind P p =
    (case filter (\<lambda>i. P (p ! i)) (rev [0..<length p]) of
       [] \<Rightarrow> - 1
     | i # _ \<Rightarrow> int i)"

definition splitext :: "os \<Rightarrow> str \<Rightarrow> str \<times> str" where
  "splitext platform p =
    (let sepIndex = rfind (\<lambda>c. c \<in> set (seps platform)) p;
         dotIndex = rfind (\<lambda>c. c = 0x2E) p
     in if dotIndex > sepIndex \<and>
           list_ex (\<lambda>i. p ! i \<noteq> 0x2E) [nat (sepIndex + 1)..<nat dotIndex]
        then (take (nat dotIndex) p, drop (nat dotIndex) p)
        else (p, []))"

text \<open>
  A path is a directory given by the system (the temporary directory, the working
  directory) or a path joined with a name by \<open>/\<close>. The file system holds the contents of
  files under their paths; directories other than by their files, and failures of the
  operating system, are not part of it.
\<close>

datatype path = Dir str | Slash path str

type_synonym files = "path \<rightharpoonup> bytes"

fun within :: "path \<Rightarrow> path \<Rightarrow> bool" where
  "within d (Dir s) = False"
| "within d (Slash q n) = (q = d \<or> within d q)"

definition cleanup :: "path \<Rightarrow> files \<Rightarrow> files" where
  \<comment> \<open>leaving \<open>with TemporaryDirectory()\<close>: the directory and all in it are removed\<close>
  "cleanup d fs = (\<lambda>p. if within d p then None else fs p)"

text \<open>
  The operations on the file system that \<open>update\<close> asks for. The operating system may
  fail in any of them (access rights, a full disk, a name it does not allow, a missing
  directory): \<open>os_fault\<close> of the host says, from the operation and the files, whether
  it raises.
\<close>

datatype fs_op =
    Mkdtemp
  | Write_bytes path
  | Extract path str path
  | Move path path
  | Rmtree path

text \<open>
  The host of the program: the network, the platform, the table of the codec \<open>gbk\<close>,
  the failures of the operating system, the directory that \<open>TemporaryDirectory()\<close> creates, the working directory,
  the reading of a zip archive (its members' contents under their names, as \<open>zipfile\<close>
  shows them), and the two functions \<open>green\<close> and \<open>red\<close> of the module \<open>utils\<close>,
  which is not among the sources.
\<close>

record host =
  network :: net
  platform :: os
  gbk :: "nat \<rightharpoonup> bytes"
  os_fault :: "fs_op \<Rightarrow> files \<Rightarrow> nat option"
  tempdir :: path
  cwd :: path
  zip_members :: "bytes \<Rightarrow> exn + (str \<rightharpoonup> bytes)"
  green :: "str \<Rightarrow> str"
  red :: "str \<Rightarrow> str"

definition write_bytes :: "host \<Rightarrow> path \<Rightarrow> bytes \<Rightarrow> files \<Rightarrow> exn option \<times> files" where
  "write_bytes h p content fs =
    (case os_fault h (Write_bytes p) fs of
       Some n \<Rightarrow> (Some (External n), fs)
     | None \<Rightarrow> (None, fs(p \<mapsto> content)))"

definition no_item_message :: "str \<Rightarrow> str" where
  \<comment> \<open>\<open>"There is no item named %r in the archive" % name\<close>, for a name that \<open>repr\<close> only quotes\<close>
  "no_item_message name =
    ascii ''There is no item named '' @ [0x27] @ name @ [0x27] @ ascii '' in the archive''"

text \<open>
  \<open>with ZipFile(p) as f: f.extract(member, path=str(tempdir))\<close>: the archive is read
  from the file \<open>p\<close>; a member that is not in it is a \<open>KeyError\<close>; the member's
  content is written under its name in the directory (for a name that \<open>zipfile\<close> does
  not have to clean of separators, drive letters or characters a platform forbids).
\<close>

definition zip_extract :: "host \<Rightarrow> path \<Rightarrow> str \<Rightarrow> path \<Rightarrow> files \<Rightarrow> exn option \<times> files" where
  "zip_extract h p member dir fs =
    (case fs p of
       None \<Rightarrow> (Some FileNotFoundError, fs)
     | Some archive \<Rightarrow>
         (case zip_members h archive of
            Inl e \<Rightarrow> (Some e, fs)
          | Inr members \<Rightarrow>
              (case members member of
                 None \<Rightarrow> (Some (KeyError (no_item_message member)), fs)
               | Some data \<Rightarrow>
                   (case os_fault h (Extract p member dir) fs of
                      Some n \<Rightarrow> (Some (External n), fs)
                    | None \<Rightarrow> (None, fs(Slash dir member \<mapsto> data))))))"

text \<open>
  \<open>shutil.move(src, dst)\<close> for a file \<open>src\<close>: where the operating system lets it
  succeed, the content is under \<open>dst\<close> afterwards, whether or not a file was there
  before, and no longer under \<open>src\<close>.
\<close>

definition move :: "host \<Rightarrow> path \<Rightarrow> path \<Rightarrow> files \<Rightarrow> exn option \<times> files" where
  "move h src dst fs =
    (case fs src of
       None \<Rightarrow> (Some FileNotFoundError, fs)
     | Some b \<Rightarrow>
         (case os_fault h (Move src dst) fs of
            Some n \<Rightarrow> (Some (External n), fs)
          | None \<Rightarrow> (None, (fs(src := None))(dst \<mapsto> b))))"

text \<open>The body of the \<open>with\<close> statement of \<open>update\<close>, lines 164 to 179.\<close>

definition update_body :: "host \<Rightarrow> str \<Rightarrow> files \<Rightarrow> exn option \<times> files" where
  "update_body h latest_version fs =
    (let p = Slash (tempdir h) RELEASE_ASSET_NAME
     in case get_latest_released_asset (network h) RELEASE_ASSET_NAME of
          Inl e \<Rightarrow> (Some e, fs)
        | Inr content \<Rightarrow>
            (case write_bytes h p content fs of
               (Some e, fs1) \<Rightarrow> (Some e, fs1)
             | (None, fs1) \<Rightarrow>
                 (case name_repair (gbk h) RELEASE_EXECUTABLE_NAME of
                    Inl e \<Rightarrow> (Some e, fs1)
                  | Inr transformed_executable_name \<Rightarrow>
                      (case zip_extract h p transformed_executable_name (tempdir h) fs1 of
                         (Some e, fs2) \<Rightarrow> (Some e, fs2)
                       | (None, fs2) \<Rightarrow>
                           (let (basename, extension) =
                                  splitext (platform h) RELEASE_EXECUTABLE_NAME;
                                versioned_executable_name =
                                  basename @ latest_version @ extension
                            in move h (Slash (tempdir h) transformed_executable_name)
                                 (Slash (cwd h) versioned_executable_name) fs2)))))"

text \<open>
  \<open>update\<close>: the temporary directory is created, the body runs, and the directory is
  removed however the body ends. Where the creation or the removal fails, that failure is
  what \<open>update\<close> raises.
\<close>

definition update :: "host \<Rightarrow> str \<Rightarrow> files \<Rightarrow> exn option \<times> files" where
  "update h latest_version fs =
    (case os_fault h Mkdtemp fs of
       Some n \<Rightarrow> (Some (External n), fs)
     | None \<Rightarrow>
         (case update_body h latest_version fs of
            (r, fs') \<Rightarrow>
              (case os_fault h (Rmtree (tempdir h)) fs' of
                 Some n \<Rightarrow> (Some (External n), fs')
               | None \<Rightarrow> (r, cleanup (tempdir h) fs'))))"

subsection \<open>Asking for the update\<close>

text \<open>
  \<open>input()\<close> reads a line of the standard input, given here as the list of its lines,
  and raises \<open>EOFError\<close> at its end; what it and \<open>print\<close> write is collected.
  \<open>str.strip()\<close> removes the white space, in the sense of \<open>str.isspace\<close>, at both
  ends. \<open>exit()\<close> ends the program: \<open>Exited\<close>.
\<close>

definition is_space :: "nat \<Rightarrow> bool" where
  "is_space c =
    (c \<in> set [0x9, 0xA, 0xB, 0xC, 0xD, 0x1C, 0x1D, 0x1E, 0x1F, 0x20, 0x85, 0xA0, 0x1680,
       0x2000, 0x2001, 0x2002, 0x2003, 0x2004, 0x2005, 0x2006, 0x2007, 0x2008, 0x2009,
       0x200A, 0x2028, 0x2029, 0x202F, 0x205F, 0x3000])"

definition strip :: "str \<Rightarrow> str" where
  "strip s = rev (dropWhile is_space (rev (dropWhile is_space s)))"

definition yes :: str where
  "yes = [0x662F]"

definition no :: str where
  "no = [0x5426]"

definition update_prompt :: "host \<Rightarrow> str \<Rightarrow> str" where
  "update_prompt h latest_version =
    [0x68C0, 0x6D4B, 0x5230, 0x66F4, 0x65B0, 0x7248, 0x672C, 0x20] @ latest_version @
    [0xFF0C, 0x662F, 0x5426, 0x66F4, 0x65B0, 0xFF1F, 0x3010, 0x9009, 0x62E9, 0x662F, 0x8BF7,
     0x8F93, 0x5165, 0x201C] @ green h yes @
    [0x201D, 0xFF0C, 0x9009, 0x62E9, 0x5426, 0x8BF7, 0x8F93, 0x5165, 0x201C] @ red h no @
    [0x201D, 0x3011, 0xA]"

definition invalid_message :: str where
  "invalid_message =
    [0x8F93, 0x5165, 0x6307, 0x4EE4, 0x65E0, 0x6548, 0xFF0C, 0x8BF7, 0x91CD, 0x65B0, 0x8F93,
     0x5165]"

datatype outcome = Returned | Exited | Raised exn

text \<open>
  The loop of \<open>check_update\<close>, lines 185 to 195; the result is how it ends, the files,
  the lines of input not read and the output.
\<close>

fun ask :: "host \<Rightarrow> str \<Rightarrow> str list \<Rightarrow> files \<Rightarrow> str list \<Rightarrow>
    outcome \<times> files \<times> str list \<times> str list" where
  "ask h latest_version [] fs out =
    (Raised EOFError, fs, [], out @ [update_prompt h latest_version])"
| "ask h latest_version (line # rest) fs out =
    (let out1 = out @ [update_prompt h latest_version];
         choice = strip line
     in if choice = yes then
          (case update h latest_version fs of
             (Some e, fs') \<Rightarrow> (Raised e, fs', rest, out1)
           | (None, fs') \<Rightarrow> (Exited, fs', rest, out1))
        else if choice = no then (Returned, fs, rest, out1)
        else ask h latest_version rest fs (out1 @ [invalid_message]))"

definition check_update :: "host \<Rightarrow> str list \<Rightarrow> files \<Rightarrow>
    outcome \<times> files \<times> str list \<times> str list" where
  "check_update h input fs =
    (case get_latest_released_version (network h) of
       Inl e \<Rightarrow> (Raised e, fs, input, [])
     | Inr latest_version \<Rightarrow>
         (case parse_version_number latest_version of
            Inl e \<Rightarrow> (Raised e, fs, input, [])
          | Inr latest \<Rightarrow>
              (case parse_version_number version of
                 Inl e \<Rightarrow> (Raised e, fs, input, [])
               | Inr current \<Rightarrow>
                   if tuple_gt latest current then ask h latest_version input fs []
                   else (Returned, fs, input, []))))"

text \<open>
  The name under which the executable is stored in the archive, its base name and its
  extension, as the theorems below compute them.
\<close>

definition stored_name :: str where
  "stored_name =
    [0x2557, 0x2219, 0x255C, 0x2261, 0x2568, 0x253C, 0x2567, 0xF3, 0x2554, 0xB7, 0x2502,
     0x2554, 0x255E, 0x2248, 0x2E, 0x65, 0x78, 0x65]"

definition base_name :: str where
  "base_name = [0x57FA, 0x91D1, 0x4FE1, 0x606F, 0x751F, 0x6210, 0x5668]"

text \<open>
  A host for the examples below: the release has the tag \<open>v0.3.0\<close> and the one asset
  of the name asked for; the archive has the executable under its stored name; the
  operating system fails nowhere.
\<close>

definition example_host :: host where
  "example_host =
    \<lparr>network =
       \<lparr>release_for_version = Inr \<lparr>tag_name = Some (ascii ''v0.3.0''), assets = Some []\<rparr>,
        release_for_asset =
          Inr \<lparr>tag_name = Some (ascii ''v0.3.0''),
               assets = Some [[ascii ''name'' \<mapsto> RELEASE_ASSET_NAME,
                               ascii ''url'' \<mapsto> ascii ''u'']]\<rparr>,
        download = (\<lambda>u. Inr [80, 75])\<rparr>,
     platform = Windows,
     gbk = map_of gbk_table,
     os_fault = (\<lambda>operation fs. None),
     tempdir = Dir (ascii ''tmp''),
     cwd = Dir (ascii ''work''),
     zip_members = (\<lambda>archive. Inr [stored_name \<mapsto> [77, 90]]),
     green = (\<lambda>s. s),
     red = (\<lambda>s. s)\<rparr>"

section \<open>The spreadsheet\<close>

datatype ExcelCellDataType = string | date | number

text \<open>
  The nine field names, as code points: fund name, fund code, net value date, unit net
  value, daily growth rate, estimate date, real-time estimate, estimate growth rate,
  dividends.
\<close>

definition fieldnames :: "str list" where
  "fieldnames =
    [[0x57FA, 0x91D1, 0x540D, 0x79F0],
     [0x57FA, 0x91D1, 0x4EE3, 0x7801],
     [0x51C0, 0x503C, 0x65E5, 0x671F],
     [0x5355, 0x4F4D, 0x51C0, 0x503C],
     [0x65E5, 0x589E, 0x957F, 0x7387],
     [0x4F30, 0x7B97, 0x65E5, 0x671F],
     [0x5B9E, 0x65F6, 0x4F30, 0x503C],
     [0x4F30, 0x7B97, 0x589E, 0x957F, 0x7387],
     [0x5206, 0x7EA2, 0x9001, 0x914D]]"

definition fieldtypes :: "ExcelCellDataType list" where
  "fieldtypes = [string, string, date, number, string, string, number, string, string]"

text \<open>The string literals that \<open>write_to_xlsx\<close> compares field names with.\<close>

definition fund_name :: str where
  "fund_name = [0x57FA, 0x91D1, 0x540D, 0x79F0]"

definition estimate_date :: str where
  "estimate_date = [0x4F30, 0x7B97, 0x65E5, 0x671F]"

definition realtime_estimate :: str where
  "realtime_estimate = [0x5B9E, 0x65F6, 0x4F30, 0x503C]"

definition estimate_growth_rate :: str where
  "estimate_growth_rate = [0x4F30, 0x7B97, 0x589E, 0x957F, 0x7387]"

definition export_error_message :: str where
  "export_error_message =
    [0x83B7, 0x53D6, 0x57FA, 0x91D1, 0x4FE1, 0x606F, 0x5E76, 0x5199, 0x5165, 0x20, 0x45,
     0x78, 0x63, 0x65, 0x6C, 0x20, 0x6587, 0x6863, 0x7684, 0x65F6, 0x5019, 0x53D1, 0x751F,
     0x9519, 0x8BEF]"

text \<open>
  A cell format is the dictionary given to \<open>add_format\<close>. The calls that
  \<open>write_to_xlsx\<close> makes to xlsxwriter are recorded in a trace, in the order in which
  they return. xlsxwriter, \<open>float\<close> and \<open>datetime.strptime\<close> are parameters:
  \<open>py_float\<close> and \<open>strptime\<close> return \<open>None\<close> where the real ones raise
  \<open>ValueError\<close>, and \<open>fault\<close> says, from the calls made so far and the call at hand,
  whether the library raises in it. The types of floating-point numbers and of dates are
  left open. Messages printed to the console and the progress bar are left out.
\<close>

datatype fval = FBool bool | FStr str | FInt int

type_synonym format = "(str \<times> fval) list"

datatype ('f, 'd) call =
    Workbook str
  | Add_worksheet
  | Add_format format
  | Write nat nat str format
  | Set_column nat nat nat
  | Write_string nat nat str
  | Write_number nat nat 'f
  | Write_datetime nat nat 'd format
  | Close

record ('f, 'd) lib =
  py_float :: "str \<Rightarrow> 'f option"
  strptime :: "str \<Rightarrow> str \<Rightarrow> 'd option"
  fault :: "('f, 'd) call list \<Rightarrow> ('f, 'd) call \<Rightarrow> nat option"

type_synonym ('f, 'd) step = "('f, 'd) call list \<Rightarrow> exn option \<times> ('f, 'd) call list"

definition do_call :: "('f, 'd) lib \<Rightarrow> ('f, 'd) call \<Rightarrow> ('f, 'd) step" where
  "do_call l c tr =
    (case fault l tr c of
       Some n \<Rightarrow> (Some (External n), tr)
     | None \<Rightarrow> (None, tr @ [c]))"

definition raise :: "exn \<Rightarrow> ('f, 'd) step" where
  "raise e tr = (Some e, tr)"

definition skip :: "('f, 'd) step" where
  "skip tr = (None, tr)"

fun for_each :: "'a list \<Rightarrow> ('a \<Rightarrow> ('f, 'd) step) \<Rightarrow> ('f, 'd) step" where
  "for_each [] body tr = (None, tr)"
| "for_each (x # xs) body tr =
    (case body x tr of
       (None, tr') \<Rightarrow> for_each xs body tr'
     | (Some e, tr') \<Rightarrow> (Some e, tr'))"

definition in_order :: "('f, 'd) step list \<Rightarrow> ('f, 'd) step" where
  "in_order steps = for_each steps (\<lambda>s. s)"

definition header_format :: format where
  "header_format =
    [(ascii ''bold'', FBool True), (ascii ''align'', FStr (ascii ''center'')),
     (ascii ''valign'', FStr (ascii ''top'')), (ascii ''border'', FInt 1)]"

definition date_format :: format where
  "date_format = [(ascii ''num_format'', FStr (ascii ''yyyy-mm-dd''))]"

text \<open>The body of the inner loop, lines 123 to 135, for one record and one column.\<close>

definition write_cell ::
  "('f, 'd) lib \<Rightarrow> nat \<Rightarrow> (str \<rightharpoonup> str) \<Rightarrow> nat \<Rightarrow> str \<Rightarrow> ('f, 'd) step" where
  "write_cell l row info col fieldname =
    (case info fieldname of
       None \<Rightarrow> raise (KeyError fieldname)
     | Some fieldvalue \<Rightarrow>
         if col < length fieldtypes then
           (let fieldtype = fieldtypes ! col
            in if fieldtype = string then do_call l (Write_string (row + 1) col fieldvalue)
               else if fieldtype = number then
                 (case py_float l fieldvalue of
                    None \<Rightarrow> raise ValueError
                  | Some num \<Rightarrow> do_call l (Write_number (row + 1) col num))
               else if fieldtype = date then
                 (case strptime l fieldvalue (ascii ''%Y-%m-%d'') of
                    None \<Rightarrow> raise ValueError
                  | Some d \<Rightarrow> do_call l (Write_datetime (row + 1) col d date_format))
               else raise (RuntimeError (ascii ''Unreachable'') None))
         else raise IndexError)"

text \<open>The \<open>try\<close> block of \<open>write_to_xlsx\<close>, lines 90 to 137.\<close>

definition try_block ::
  "('f, 'd) lib \<Rightarrow> (str \<rightharpoonup> str) list \<Rightarrow> str \<Rightarrow> ('f, 'd) step" where
  "try_block l infos xlsx_filename =
    in_order
      [do_call l (Workbook xlsx_filename),
       do_call l Add_worksheet,
       do_call l (Add_format header_format),
       do_call l (Add_format date_format),
       for_each (enumerate 0 fieldnames)
         (\<lambda>(i, fieldname). do_call l (Write 0 i fieldname header_format)),
       for_each (enumerate 0 fieldtypes)
         (\<lambda>(i, fieldtype). if fieldtype = date then do_call l (Set_column i i 13) else skip),
       for_each (enumerate 0 fieldnames)
         (\<lambda>(i, fieldname).
            if fieldname = fund_name then do_call l (Set_column i i 22)
            else if fieldname = estimate_date then do_call l (Set_column i i 17)
            else if fieldname \<in> set [realtime_estimate, estimate_growth_rate]
              then do_call l (Set_column i i 11)
            else skip),
       for_each (enumerate 0 infos)
         (\<lambda>(row, info).
            for_each (enumerate 0 fieldnames)
              (\<lambda>(col, fieldname). write_cell l row info col fieldname)),
       do_call l Close]"

text \<open>
  \<open>write_to_xlsx\<close>: whatever the block raises is raised again as a \<open>RuntimeError\<close>
  with the fixed message and the exception as its cause. The result is the exception, if
  any, and the calls that were made.
\<close>

definition write_to_xlsx ::
  "('f, 'd) lib \<Rightarrow> (str \<rightharpoonup> str) list \<Rightarrow> str \<Rightarrow> exn option \<times> ('f, 'd) call list" where
  "write_to_xlsx l infos xlsx_filename =
    (case try_block l infos xlsx_filename [] of
       (None, tr) \<Rightarrow> (None, tr)
     | (Some exc, tr) \<Rightarrow> (Some (RuntimeError export_error_message (Some exc)), tr))"

text \<open>
  What the specification says about one cell: the value of the field, looked up by the
  field's name, is written raw for a string field, parsed as a floating-point number for
  a number field, parsed with the format \<open>%Y-%m-%d\<close> and written with the display
  format \<open>yyyy-mm-dd\<close> for a date field; a missing value and a value that does not
  parse are errors. \<open>cells\<close> lists the cells of all records, row by row and in each row
  in schema order. \<open>header_calls\<close> lists the calls of the header: one header cell for
  each field, in schema order, and the widths of five columns. \<open>perform\<close> makes the
  calls of a list in turn until one is an error or the library raises: the \<open>try\<close>
  block will be shown to perform \<open>plan\<close>.
\<close>

fun perform :: "('f, 'd) lib \<Rightarrow> (exn + ('f, 'd) call) list \<Rightarrow> ('f, 'd) step" where
  "perform l [] tr = (None, tr)"
| "perform l (Inl e # ds) tr = (Some e, tr)"
| "perform l (Inr c # ds) tr =
    (case fault l tr c of
       Some n \<Rightarrow> (Some (External n), tr)
     | None \<Rightarrow> perform l ds (tr @ [c]))"

definition cell ::
  "('f, 'd) lib \<Rightarrow> nat \<Rightarrow> (str \<rightharpoonup> str) \<Rightarrow> nat \<Rightarrow> exn + ('f, 'd) call" where
  "cell l row info col =
    (case info (fieldnames ! col) of
       None \<Rightarrow> Inl (KeyError (fieldnames ! col))
     | Some v \<Rightarrow>
         (case fieldtypes ! col of
            string \<Rightarrow> Inr (Write_string (row + 1) col v)
          | number \<Rightarrow>
              (case py_float l v of
                 None \<Rightarrow> Inl ValueError
               | Some x \<Rightarrow> Inr (Write_number (row + 1) col x))
          | date \<Rightarrow>
              (case strptime l v (ascii ''%Y-%m-%d'') of
                 None \<Rightarrow> Inl ValueError
               | Some d \<Rightarrow> Inr (Write_datetime (row + 1) col d date_format))))"

definition cells :: "('f, 'd) lib \<Rightarrow> (str \<rightharpoonup> str) list \<Rightarrow> (exn + ('f, 'd) call) list" where
  "cells l infos =
    concat (map (\<lambda>(row, info). map (cell l row info) [0..<length fieldnames])
      (enumerate 0 infos))"

definition header_calls :: "str \<Rightarrow> ('f, 'd) call list" where
  "header_calls xlsx_filename =
    [Workbook xlsx_filename, Add_worksheet, Add_format header_format, Add_format date_format] @
    map (\<lambda>(i, fieldname). Write 0 i fieldname header_format) (enumerate 0 fieldnames) @
    [Set_column 2 2 13, Set_column 0 0 22, Set_column 5 5 17, Set_column 6 6 11,
     Set_column 7 7 11]"

definition plan :: "('f, 'd) lib \<Rightarrow> (str \<rightharpoonup> str) list \<Rightarrow> str \<Rightarrow> (exn + ('f, 'd) call) list" where
  "plan l infos xlsx_filename =
    map Inr (header_calls xlsx_filename) @ cells l infos @ [Inr Close]"

text \<open>
  Reading a result: \<open>first_error\<close> is the first error of a list of cells;
  \<open>column_width\<close> is the width that the calls of a trace leave on a column (the last
  \<open>set_column\<close> that covers it, \<open>None\<close> for the default width); \<open>spec_width\<close> is the
  width the specification gives to a column; \<open>built_at_temporary_path\<close> says that no
  workbook of a trace was created under the destination path itself, as a discipline of
  writing to a temporary path and renaming would have it.
\<close>

fun first_error :: "(exn + 'c) list \<Rightarrow> exn option" where
  "first_error [] = None"
| "first_error (Inl e # ds) = Some e"
| "first_error (Inr c # ds) = first_error ds"

text \<open>The calls of a list of cells that come before its first error.\<close>

fun calls_before_error :: "(exn + 'c) list \<Rightarrow> 'c list" where
  "calls_before_error [] = []"
| "calls_before_error (Inl e # ds) = []"
| "calls_before_error (Inr c # ds) = c # calls_before_error ds"

definition set_width :: "('f, 'd) call \<Rightarrow> nat \<Rightarrow> nat option" where
  "set_width c col =
    (case c of
       Set_column c1 c2 w \<Rightarrow> if c1 \<le> col \<and> col \<le> c2 then Some w else None
     | _ \<Rightarrow> None)"

fun column_width :: "('f, 'd) call list \<Rightarrow> nat \<Rightarrow> nat option" where
  "column_width [] col = None"
| "column_width (c # cs) col =
    (case column_width cs col of
       Some w \<Rightarrow> Some w
     | None \<Rightarrow> set_width c col)"

definition spec_width :: "nat \<Rightarrow> nat option" where
  "spec_width col =
    (if fieldtypes ! col = date then Some 13
     else if fieldnames ! col = fund_name then Some 22
     else if fieldnames ! col = estimate_date then Some 17
     else if fieldnames ! col = realtime_estimate \<or> fieldnames ! col = estimate_growth_rate
       then Some 11
     else None)"

definition is_header_cell :: "('f, 'd) call \<Rightarrow> bool" where
  "is_header_cell c = (case c of Write row col v f \<Rightarrow> True | _ \<Rightarrow> False)"


text \<open>A release with two assets, for the examples below.\<close>

definition example_net :: net where
  "example_net =
    \<lparr>release_for_version = Inl (External 0),
     release_for_asset =
       Inr \<lparr>tag_name = None,
            assets = Some [[ascii ''name'' \<mapsto> ascii ''a.zip'', ascii ''url'' \<mapsto> ascii ''u1''],
                           [ascii ''name'' \<mapsto> ascii ''b.zip'', ascii ''url'' \<mapsto> ascii ''u2'']]\<rparr>,
     download = (\<lambda>u. if u = ascii ''u1'' then Inr [1, 2, 3] else Inl (External 1))\<rparr>"

text \<open>
  A library for the examples below: it raises in no call, reads the one number
  \<open>12.34\<close> (as 1234 hundredths) and the one date \<open>2023-01-15\<close>. \<open>example_record\<close>
  has a value for every field, and \<open>bad_record\<close> has \<open>abc\<close> for the fourth, a number.
\<close>

definition example_lib :: "(int, int \<times> int \<times> int) lib" where
  "example_lib =
    \<lparr>py_float = [ascii ''12.34'' \<mapsto> 1234],
     strptime = (\<lambda>v f. if f = ascii ''%Y-%m-%d'' \<and> v = ascii ''2023-01-15''
                         then Some (2023, 1, 15) else None),
     fault = (\<lambda>tr c. None)\<rparr>"

definition example_record :: "str \<rightharpoonup> str" where
  "example_record =
    map_of (zip fieldnames
      [ascii ''X'', ascii ''000001'', ascii ''2023-01-15'', ascii ''12.34'', ascii ''1%'',
       ascii ''2023-01-16'', ascii ''12.34'', ascii ''2%'', ascii ''-''])"

definition bad_record :: "str \<rightharpoonup> str" where
  "bad_record = example_record(fieldnames ! 3 \<mapsto> ascii ''abc'')"

section \<open>Facts about digits and the version pattern\<close>

lemma is_digit_below: "c < 0x660 \<Longrightarrow> is_digit c = (0x30 \<le> c \<and> c \<le> 0x39)"
  by (auto simp: is_digit_def decimal_value_def decimal_zeros_def)

lemma decimal_value_ascii:
  "0x30 \<le> c \<Longrightarrow> c \<le> 0x39 \<Longrightarrow> decimal_value c = Some (c - 0x30)"
  by (simp add: decimal_value_def decimal_zeros_def)

lemma not_digit_dot: "\<not> is_digit 0x2E"
  by (simp add: is_digit_below)

lemma not_digit_v: "\<not> is_digit 0x76"
  by (simp add: is_digit_below)

lemma digits_iff:
  "digits s = Some (g, r) \<longleftrightarrow>
     digit_string g \<and> s = g @ r \<and> (r = [] \<or> \<not> is_digit (hd r))"
proof
  assume "digits s = Some (g, r)"
  then have g: "g = takeWhile is_digit s" and r: "r = dropWhile is_digit s" and ne: "g \<noteq> []"
    by (auto simp: digits_def Let_def split: if_splits)
  have "list_all is_digit g"
    unfolding g list_all_iff by (auto dest: set_takeWhileD)
  moreover have "s = g @ r" by (simp add: g r)
  moreover have "r = [] \<or> \<not> is_digit (hd r)"
    unfolding r using hd_dropWhile [of is_digit s] by blast
  ultimately show "digit_string g \<and> s = g @ r \<and> (r = [] \<or> \<not> is_digit (hd r))"
    using ne by (simp add: digit_string_def)
next
  assume h: "digit_string g \<and> s = g @ r \<and> (r = [] \<or> \<not> is_digit (hd r))"
  then have all: "\<And>x. x \<in> set g \<Longrightarrow> is_digit x" and ne: "g \<noteq> []" and s: "s = g @ r"
    by (auto simp: digit_string_def list_all_iff)
  have rr: "takeWhile is_digit r = []" "dropWhile is_digit r = r"
    using h by (cases r; simp)+
  have "takeWhile is_digit s = g"
    unfolding s using all rr by (simp add: takeWhile_append2)
  moreover have "dropWhile is_digit s = r"
    unfolding s using all rr by (simp add: dropWhile_append2)
  ultimately show "digits s = Some (g, r)"
    using ne by (simp add: digits_def Let_def)
qed

lemma dot_iff: "dot s = Some r \<longleftrightarrow> s = 0x2E # r"
  by (cases s) (auto simp: dot_def)

lemma strip_v_cases:
  "(s = 0x76 # strip_v s) \<or> (strip_v s = s \<and> (s = [] \<or> hd s \<noteq> 0x76))"
  by (cases s) (auto simp: strip_v_def)

lemma strip_v_Cons: "strip_v (0x76 # r) = r"
  by (simp add: strip_v_def)

lemma strip_v_digit: "digit_string a \<Longrightarrow> strip_v (a @ r) = a @ r"
  by (cases a) (auto simp: strip_v_def digit_string_def not_digit_v)

lemma match_version_iff:
  "match_version s = Some (a, b, c) \<longleftrightarrow>
     (\<exists>p rest. s = p @ rest \<and> version_shape p a b c \<and>
        (rest = [] \<or> \<not> is_digit (hd rest)))"
proof
  assume m: "match_version s = Some (a, b, c)"
  then obtain s1 s2 s3 s4 s5 where
    d1: "digits (strip_v s) = Some (a, s1)" and p1: "dot s1 = Some s2" and
    d2: "digits s2 = Some (b, s3)" and p2: "dot s3 = Some s4" and
    d3: "digits s4 = Some (c, s5)"
    by (auto simp: match_version_def split: option.splits prod.splits)
  have e: "strip_v s = a @ 0x2E # b @ 0x2E # c @ s5"
    using d1 p1 d2 p2 d3 by (simp add: digits_iff dot_iff)
  have ds: "digit_string a" "digit_string b" "digit_string c" "s5 = [] \<or> \<not> is_digit (hd s5)"
    using d1 d2 d3 by (simp_all add: digits_iff)
  from strip_v_cases [of s]
  show "\<exists>p rest. s = p @ rest \<and> version_shape p a b c \<and> (rest = [] \<or> \<not> is_digit (hd rest))"
  proof
    assume "s = 0x76 # strip_v s"
    then have "s = (0x76 # a @ 0x2E # b @ 0x2E # c) @ s5" using e by simp
    then show ?thesis using ds unfolding version_shape_def by blast
  next
    assume "strip_v s = s \<and> (s = [] \<or> hd s \<noteq> 0x76)"
    then have "s = (a @ 0x2E # b @ 0x2E # c) @ s5" using e by simp
    then show ?thesis using ds unfolding version_shape_def by blast
  qed
next
  assume "\<exists>p rest. s = p @ rest \<and> version_shape p a b c \<and> (rest = [] \<or> \<not> is_digit (hd rest))"
  then obtain p rest where s: "s = p @ rest" and sh: "version_shape p a b c"
    and r: "rest = [] \<or> \<not> is_digit (hd rest)" by blast
  have ds: "digit_string a" "digit_string b" "digit_string c"
    using sh by (simp_all add: version_shape_def)
  have "strip_v s = a @ 0x2E # b @ 0x2E # c @ rest"
    using sh s strip_v_digit [OF ds(1)] by (auto simp: version_shape_def strip_v_Cons)
  then have d1: "digits (strip_v s) = Some (a, 0x2E # b @ 0x2E # c @ rest)"
    using ds by (simp add: digits_iff not_digit_dot)
  have d2: "digits (b @ 0x2E # c @ rest) = Some (b, 0x2E # c @ rest)"
    using ds by (simp add: digits_iff not_digit_dot)
  have d3: "digits (c @ rest) = Some (c, rest)"
    using ds r by (simp add: digits_iff)
  show "match_version s = Some (a, b, c)"
    by (simp add: match_version_def d1 d2 d3 dot_def)
qed

lemma int_digits_total:
  "list_all is_digit ds \<Longrightarrow> \<exists>n. int_digits acc ds = Inr n"
  by (induction ds arbitrary: acc) (auto simp: is_digit_def)

lemma py_int_total:
  "digit_string ds \<Longrightarrow> length ds \<le> int_max_str_digits \<Longrightarrow> \<exists>n. py_int ds = Inr n"
  by (simp add: py_int_def digit_string_def int_digits_total)

lemma py_int_long:
  "int_max_str_digits < length ds \<Longrightarrow> py_int ds = Inl ValueError"
  by (auto simp: py_int_def)

lemma split_on_ne: "split_on d s \<noteq> []"
  by (induction s) (auto split: list.splits)

lemma join_split_on: "join d (split_on d s) = s"
proof (induction s)
  case Nil
  then show ?case by simp
next
  case (Cons c cs)
  show ?case
  proof (cases "c = d")
    case True
    then show ?thesis using Cons split_on_ne [of d cs]
      by (cases "split_on d cs") auto
  next
    case False
    then show ?thesis using Cons split_on_ne [of d cs]
      by (cases "split_on d cs"; cases "tl (split_on d cs)") auto
  qed
qed

lemma split_on_plain: "d \<notin> set a \<Longrightarrow> split_on d a = [a]"
  by (induction a) auto

lemma split_on_append: "d \<notin> set a \<Longrightarrow> split_on d (a @ d # r) = a # split_on d r"
  by (induction a) auto

lemma digit_string_no_dot: "digit_string a \<Longrightarrow> 0x2E \<notin> set a"
  using not_digit_dot by (auto simp: digit_string_def list_all_iff)

lemma spec_version_string_iff:
  "spec_version_string s \<longleftrightarrow> (\<exists>a b c. version_shape s a b c)"
proof
  assume h: "spec_version_string s"
  define body where "body = (case s of [] \<Rightarrow> [] | c # r \<Rightarrow> if c = 0x76 then r else s)"
  from h have len: "length (split_on 0x2E body) = 3"
    and all: "list_all digit_string (split_on 0x2E body)"
    by (simp_all add: spec_version_string_def body_def Let_def)
  from len obtain a b c where abc: "split_on 0x2E body = [a, b, c]"
    by (auto simp: length_Suc_conv numeral_3_eq_3)
  have "join 0x2E (split_on 0x2E body) = body" by (rule join_split_on)
  then have body: "body = a @ 0x2E # b @ 0x2E # c" by (simp add: abc)
  have "s = body \<or> s = 0x76 # body"
    by (cases s) (auto simp: body_def)
  then show "\<exists>a b c. version_shape s a b c"
    using all abc body unfolding version_shape_def by auto
next
  assume "\<exists>a b c. version_shape s a b c"
  then obtain a b c where sh: "version_shape s a b c" by blast
  then have ds: "digit_string a" "digit_string b" "digit_string c"
    by (simp_all add: version_shape_def)
  have nv: "hd a \<noteq> 0x76" "a \<noteq> []"
    using ds(1) not_digit_v by (cases a; auto simp: digit_string_def)+
  have "(case s of [] \<Rightarrow> [] | c # r \<Rightarrow> if c = 0x76 then r else s) = a @ 0x2E # b @ 0x2E # c"
    using sh nv by (cases a) (auto simp: version_shape_def)
  moreover have "split_on 0x2E (a @ 0x2E # b @ 0x2E # c) = [a, b, c]"
    using ds by (simp add: split_on_append split_on_plain digit_string_no_dot)
  ultimately show "spec_version_string s"
    using ds by (simp add: spec_version_string_def Let_def)
qed

section \<open>Claims about version numbers\<close>

text \<open>
  C1 (as amended). \<open>parse_version_number\<close> looks only at the start of its argument.
  For every string that begins with text of the shape optional \<open>v\<close>, digits, dot,
  digits, dot, digits, where what follows that text is nothing or begins with a character
  that is no digit: if none of the three runs of digits has more than 4300 digits, it
  returns the integers that \<open>int()\<close> reads from the three runs, whatever follows; if one
  of them has more, it fails with the \<open>ValueError\<close> of \<open>int()\<close>. For every string no
  prefix of which has that shape, it fails with the \<open>AttributeError\<close> of
  \<open>None.group\<close>.
\<close>

theorem parse_version_number_prefix:
  "(\<forall>p rest a b c.
      s = p @ rest \<and> version_shape p a b c \<and> (rest = [] \<or> \<not> is_digit (hd rest)) \<longrightarrow>
      (if length a \<le> int_max_str_digits \<and> length b \<le> int_max_str_digits \<and>
          length c \<le> int_max_str_digits
       then \<exists>M N P. py_int a = Inr M \<and> py_int b = Inr N \<and> py_int c = Inr P \<and>
              parse_version_number s = Inr (M, N, P)
       else parse_version_number s = Inl ValueError)) \<and>
   ((\<forall>p rest. s = p @ rest \<longrightarrow> \<not> spec_version_string p) \<longrightarrow>
      parse_version_number s = Inl AttributeError)"
proof (intro conjI allI impI)
  fix p rest a b c
  assume h: "s = p @ rest \<and> version_shape p a b c \<and> (rest = [] \<or> \<not> is_digit (hd rest))"
  then have sh: "version_shape p a b c" by simp
  have m: "match_version s = Some (a, b, c)"
    using h by (auto simp: match_version_iff)
  from sh have da: "digit_string a" and db: "digit_string b" and dc: "digit_string c"
    by (simp_all add: version_shape_def)
  show "if length a \<le> int_max_str_digits \<and> length b \<le> int_max_str_digits \<and>
          length c \<le> int_max_str_digits
       then \<exists>M N P. py_int a = Inr M \<and> py_int b = Inr N \<and> py_int c = Inr P \<and>
              parse_version_number s = Inr (M, N, P)
       else parse_version_number s = Inl ValueError"
  proof (cases "length a \<le> int_max_str_digits \<and> length b \<le> int_max_str_digits \<and>
          length c \<le> int_max_str_digits")
    case True
    from py_int_total [OF da] True obtain M where M: "py_int a = Inr M" by blast
    from py_int_total [OF db] True obtain N where N: "py_int b = Inr N" by blast
    from py_int_total [OF dc] True obtain P where P: "py_int c = Inr P" by blast
    have "parse_version_number s = Inr (M, N, P)"
      using m M N P by (simp add: parse_version_number_def)
    with M N P True show ?thesis by simp
  next
    case False
    have "parse_version_number s = Inl ValueError"
    proof (cases "length a \<le> int_max_str_digits")
      case la: True
      from py_int_total [OF da la] obtain M where M: "py_int a = Inr M" ..
      show ?thesis
      proof (cases "length b \<le> int_max_str_digits")
        case lb: True
        from py_int_total [OF db lb] obtain N where N: "py_int b = Inr N" ..
        from False la lb have "int_max_str_digits < length c" by simp
        then have "py_int c = Inl ValueError" by (rule py_int_long)
        then show ?thesis using m M N by (simp add: parse_version_number_def)
      next
        case False
        then have "py_int b = Inl ValueError" by (simp add: py_int_long)
        then show ?thesis using m M by (simp add: parse_version_number_def)
      qed
    next
      case False
      then have "py_int a = Inl ValueError" by (simp add: py_int_long)
      then show ?thesis using m by (simp add: parse_version_number_def)
    qed
    with False show ?thesis by simp
  qed
next
  assume h: "\<forall>p rest. s = p @ rest \<longrightarrow> \<not> spec_version_string p"
  have "match_version s = None"
  proof (rule ccontr)
    assume "match_version s \<noteq> None"
    then obtain a b c where "match_version s = Some (a, b, c)" by auto
    then show False using h by (auto simp: match_version_iff spec_version_string_iff)
  qed
  then show "parse_version_number s = Inl AttributeError"
    by (simp add: parse_version_number_def)
qed

lemma no_prefix_abc:
  "\<forall>p rest. ascii ''abc'' = p @ rest \<longrightarrow> \<not> spec_version_string p"
  by (auto simp: ascii_def Cons_eq_append_conv spec_version_string_def digit_string_def
      is_digit_below Let_def)

lemma py_int_one_digit:
  "0x30 \<le> c \<Longrightarrow> c \<le> 0x39 \<Longrightarrow> py_int [c] = Inr (int c - 0x30)"
  by (simp add: py_int_def int_max_str_digits_def decimal_value_ascii)

theorem parse_version_number_prefix_witness:
  "version_shape (ascii ''v1.2.3'') [0x31] [0x32] [0x33] \<and>
   parse_version_number (ascii ''v1.2.3-rc'') = Inr (1, 2, 3) \<and>
   \<not> spec_version_string (ascii ''ab'') \<and>
   parse_version_number (ascii ''abc'') = Inl AttributeError"
proof -
  have sh: "version_shape (ascii ''v1.2.3'') [0x31] [0x32] [0x33]"
    by (simp add: ascii_def version_shape_def digit_string_def is_digit_below)
  have e: "ascii ''v1.2.3-rc'' = ascii ''v1.2.3'' @ ascii ''-rc''"
    by (simp add: ascii_def)
  have r: "ascii ''-rc'' = [] \<or> \<not> is_digit (hd (ascii ''-rc''))"
    by (simp add: ascii_def is_digit_below)
  have l: "length [0x31::nat] \<le> int_max_str_digits \<and> length [0x32::nat] \<le> int_max_str_digits \<and>
      length [0x33::nat] \<le> int_max_str_digits"
    by (simp add: int_max_str_digits_def)
  from parse_version_number_prefix [of "ascii ''v1.2.3-rc''"] sh e r l
  have "\<exists>M N P. py_int [0x31] = Inr M \<and> py_int [0x32] = Inr N \<and> py_int [0x33] = Inr P \<and>
      parse_version_number (ascii ''v1.2.3-rc'') = Inr (M, N, P)"
    by (elim conjE allE [of _ "ascii ''v1.2.3''"] allE [of _ "ascii ''-rc''"]
        allE [of _ "[0x31]"] allE [of _ "[0x32]"] allE [of _ "[0x33]"]) simp
  then have a: "parse_version_number (ascii ''v1.2.3-rc'') = Inr (1, 2, 3)"
    by (auto simp: py_int_one_digit)
  from parse_version_number_prefix [of "ascii ''abc''"] no_prefix_abc
  have b: "parse_version_number (ascii ''abc'') = Inl AttributeError"
    by blast
  have c: "\<not> spec_version_string (ascii ''ab'')"
    using no_prefix_abc by (simp add: ascii_def)
  from sh a b c show ?thesis by simp
qed

text \<open>
  The claim as written lets every string that is not of the shape fail. The string
  \<open>1.2.3abc\<close> is not of the shape and parses to \<open>(1, 2, 3)\<close>.
\<close>

theorem parse_version_number_counterexample:
  "\<not> spec_version_string (ascii ''1.2.3abc'') \<and>
   parse_version_number (ascii ''1.2.3abc'') = Inr (1, 2, 3)"
  by (simp add: ascii_def spec_version_string_def parse_version_number_def match_version_def
      strip_v_def digits_def dot_def py_int_def int_max_str_digits_def digit_string_def
      is_digit_below decimal_value_ascii Let_def)

section \<open>Claims about fund codes\<close>

lemma is_digit_arabic: "is_digit 0x660" "is_digit 0x661"
  by (simp_all add: is_digit_def decimal_value_def decimal_zeros_def)

lemma ascii_digit_is_digit: "is_ascii_digit c \<Longrightarrow> is_digit c"
  by (simp add: is_ascii_digit_def is_digit_below)

lemma fullmatch_ascii:
  "list_all (\<lambda>c. c < 0x660) l \<Longrightarrow> fullmatch_six_digits l = six_ascii_digits l"
  by (auto simp: fullmatch_six_digits_def six_ascii_digits_def list_all_iff is_digit_below
      is_ascii_digit_def)

text \<open>
  C3 (as amended). The cleaning step accepts exactly those input lines that consist of
  exactly six decimal digits in the sense of \<open>\d\<close>, that is, of the Unicode category
  Nd: its result is the list of these lines, each as often as it occurs and in the order
  of the input, and every other line is discarded. Every
  line of six ASCII digits is accepted, and among the lines whose characters lie below
  U+0660 (ASCII among them) the accepted ones are exactly the lines of six ASCII digits.
  For the lines \<open>000001\<close>, \<open>abc\<close>, \<open>12345\<close>, \<open>000002x\<close>, \<open>999999\<close> the accepted
  list is \<open>000001\<close>, \<open>999999\<close>.
\<close>

theorem clean_codes_digits:
  "clean_codes codes = filter (\<lambda>l. length l = 6 \<and> (\<forall>c. c \<in> set l \<longrightarrow> is_digit c)) codes \<and>
   set (clean_codes codes) = {l \<in> set codes. fullmatch_six_digits l} \<and>
   subseq (clean_codes codes) codes \<and>
   (\<forall>l. six_ascii_digits l \<longrightarrow> fullmatch_six_digits l) \<and>
   (\<forall>l. list_all (\<lambda>c. c < 0x660) l \<longrightarrow> fullmatch_six_digits l = six_ascii_digits l) \<and>
   clean_codes [ascii ''000001'', ascii ''abc'', ascii ''12345'', ascii ''000002x'',
     ascii ''999999''] = [ascii ''000001'', ascii ''999999'']"
proof (intro conjI allI impI)
  show "clean_codes codes =
      filter (\<lambda>l. length l = 6 \<and> (\<forall>c. c \<in> set l \<longrightarrow> is_digit c)) codes"
    by (simp add: clean_codes_def fullmatch_six_digits_def [abs_def] list_all_iff Ball_def)
  show "set (clean_codes codes) = {l \<in> set codes. fullmatch_six_digits l}"
    by (auto simp: clean_codes_def)
  show "subseq (clean_codes codes) codes"
    by (simp add: clean_codes_def)
  show "fullmatch_six_digits l" if "six_ascii_digits l" for l
    using that by (auto simp: fullmatch_six_digits_def six_ascii_digits_def list_all_iff
        ascii_digit_is_digit)
  show "fullmatch_six_digits l = six_ascii_digits l" if "list_all (\<lambda>c. c < 0x660) l" for l
    using that by (rule fullmatch_ascii)
  show "clean_codes [ascii ''000001'', ascii ''abc'', ascii ''12345'', ascii ''000002x'',
     ascii ''999999''] = [ascii ''000001'', ascii ''999999'']"
    by (simp add: clean_codes_def fullmatch_six_digits_def ascii_def is_digit_below)
qed

theorem clean_codes_digits_witness:
  "six_ascii_digits (ascii ''000001'') \<and> fullmatch_six_digits (ascii ''000001'') \<and>
   clean_codes [ascii ''000001'', ascii ''x''] = [ascii ''000001'']"
proof -
  have a: "six_ascii_digits (ascii ''000001'')"
    by (simp add: six_ascii_digits_def ascii_def is_ascii_digit_def)
  with clean_codes_digits [of "[]"] have b: "fullmatch_six_digits (ascii ''000001'')"
    by blast
  have "\<not> fullmatch_six_digits (ascii ''x'')"
    by (simp add: fullmatch_six_digits_def ascii_def)
  with a b show ?thesis by (simp add: clean_codes_def)
qed

text \<open>
  The claim as written accepts only lines of six ASCII digits. A line of six
  Arabic-Indic digits (U+0660, U+0661) is accepted as well.
\<close>

theorem clean_codes_counterexample:
  "\<not> six_ascii_digits [0x660, 0x660, 0x660, 0x660, 0x660, 0x661] \<and>
   clean_codes [[0x660, 0x660, 0x660, 0x660, 0x660, 0x661]] =
     [[0x660, 0x660, 0x660, 0x660, 0x660, 0x661]]"
  by (simp add: clean_codes_def fullmatch_six_digits_def six_ascii_digits_def
      is_ascii_digit_def is_digit_arabic)

section \<open>Claims about the release asset\<close>

lemma candidates_filter:
  "\<forall>a\<in>set as. a (ascii ''name'') \<noteq> None \<Longrightarrow>
   candidates name as = Inr (filter (\<lambda>a. a (ascii ''name'') = Some name) as)"
  by (induction as) auto

lemma messages_differ: "no_asset_message name \<noteq> many_assets_message name"
  by (simp add: no_asset_message_def many_assets_message_def ascii_def)

text \<open>
  C6. For every list of assets (each with a name) and every target name, the lookup
  keeps the assets whose name equals the target: with none it fails with the error that
  no asset of that name can be found; with exactly one it goes on with that asset (its
  bytes are requested from its \<open>url\<close>); with two or more it fails with the error that
  more than one asset has the name, and picks none. The two errors differ.
\<close>

theorem get_latest_released_asset_cases:
  assumes "release_for_asset n = Inr json_data"
    and "assets json_data = Some as"
    and "\<forall>a\<in>set as. a (ascii ''name'') \<noteq> None"
  shows "(filter (\<lambda>a. a (ascii ''name'') = Some name) as = [] \<longrightarrow>
            get_latest_released_asset n name = Inl (RuntimeError (no_asset_message name) None)) \<and>
         (\<forall>a. filter (\<lambda>a. a (ascii ''name'') = Some name) as = [a] \<longrightarrow>
            get_latest_released_asset n name =
              (case a (ascii ''url'') of
                 None \<Rightarrow> Inl (KeyError (ascii ''url''))
               | Some u \<Rightarrow> download n u)) \<and>
         (2 \<le> length (filter (\<lambda>a. a (ascii ''name'') = Some name) as) \<longrightarrow>
            get_latest_released_asset n name =
              Inl (RuntimeError (many_assets_message name) None)) \<and>
         no_asset_message name \<noteq> many_assets_message name"
  using assms
  by (auto simp: get_latest_released_asset_def candidates_filter messages_differ
      split: list.splits option.splits)

theorem get_latest_released_asset_cases_witness:
  "get_latest_released_asset example_net (ascii ''a.zip'') = Inr [1, 2, 3] \<and>
   get_latest_released_asset example_net (ascii ''c.zip'') =
     Inl (RuntimeError (no_asset_message (ascii ''c.zip'')) None)"
proof -
  let ?as = "[[ascii ''name'' \<mapsto> ascii ''a.zip'', ascii ''url'' \<mapsto> ascii ''u1''],
              [ascii ''name'' \<mapsto> ascii ''b.zip'', ascii ''url'' \<mapsto> ascii ''u2'']]"
  have r: "release_for_asset example_net = Inr \<lparr>tag_name = None, assets = Some ?as\<rparr>"
    by (simp add: example_net_def)
  have a: "assets \<lparr>tag_name = None, assets = Some ?as\<rparr> = Some ?as"
    by simp
  have k: "\<forall>a\<in>set ?as. a (ascii ''name'') \<noteq> None"
    by simp
  have d: "download example_net (ascii ''u1'') = Inr [1, 2, 3]"
    by (simp add: example_net_def)
  from get_latest_released_asset_cases [OF r a k, of "ascii ''a.zip''"]
  have "get_latest_released_asset example_net (ascii ''a.zip'') = Inr [1, 2, 3]"
    using d by (simp add: ascii_def)
  moreover from get_latest_released_asset_cases [OF r a k, of "ascii ''c.zip''"]
  have "get_latest_released_asset example_net (ascii ''c.zip'') =
     Inl (RuntimeError (no_asset_message (ascii ''c.zip'')) None)"
    by (simp add: ascii_def)
  ultimately show ?thesis by simp
qed

section \<open>Facts about the spreadsheet\<close>

lemma perform_append:
  "perform l (xs @ ys) tr =
    (case perform l xs tr of (None, tr') \<Rightarrow> perform l ys tr' | (Some e, tr') \<Rightarrow> (Some e, tr'))"
proof (induction xs arbitrary: tr)
  case Nil
  then show ?case by simp
next
  case (Cons x xs)
  then show ?case by (cases x) (auto split: option.splits)
qed

lemma do_call_perform: "do_call l c = perform l [Inr c]"
  by (rule ext) (simp add: do_call_def split: option.splits)

lemma raise_perform: "raise e = perform l [Inl e]"
  by (rule ext) (simp add: raise_def)

lemma skip_perform: "skip = perform l []"
  by (rule ext) (simp add: skip_def)

lemma for_each_perform:
  "(\<And>x. x \<in> set xs \<Longrightarrow> body x = perform l (f x)) \<Longrightarrow>
   for_each xs body tr = perform l (concat (map f xs)) tr"
proof (induction xs arbitrary: tr)
  case Nil
  then show ?case by simp
next
  case (Cons x xs)
  have b: "body x = perform l (f x)" using Cons.prems by simp
  have r: "\<And>tr'. for_each xs body tr' = perform l (concat (map f xs)) tr'"
    using Cons by simp
  show ?case by (simp add: b r perform_append split: prod.splits option.splits)
qed

lemma write_cell_perform:
  assumes "col < length fieldnames"
  shows "write_cell l row info col (fieldnames ! col) = perform l [cell l row info col]"
proof -
  have c: "col < length fieldtypes" using assms by (simp add: fieldnames_def fieldtypes_def)
  show ?thesis
    using c
    by (cases "fieldtypes ! col")
      (simp_all add: write_cell_def cell_def raise_perform do_call_perform Let_def
        split: option.splits)
qed

lemma enumerate_fieldnames:
  "(col, fieldname) \<in> set (enumerate 0 fieldnames) \<Longrightarrow>
     col < length fieldnames \<and> fieldname = fieldnames ! col"
  by (auto simp: in_set_enumerate_eq)

lemma row_perform:
  "for_each (enumerate 0 fieldnames) (\<lambda>(col, fieldname). write_cell l row info col fieldname) =
   perform l (map (cell l row info) [0..<length fieldnames])"
proof (rule ext)
  fix tr
  have "for_each (enumerate 0 fieldnames) (\<lambda>(col, fieldname). write_cell l row info col fieldname) tr =
    perform l (concat (map (\<lambda>(col, fieldname). [cell l row info col]) (enumerate 0 fieldnames))) tr"
    by (rule for_each_perform) (auto dest!: enumerate_fieldnames simp: write_cell_perform)
  moreover have "concat (map (\<lambda>(col, fieldname). [cell l row info col]) (enumerate 0 fieldnames)) =
    map (cell l row info) [0..<length fieldnames]"
    by (simp add: fieldnames_def enumerate_eq_zip)
  ultimately show "for_each (enumerate 0 fieldnames)
       (\<lambda>(col, fieldname). write_cell l row info col fieldname) tr =
    perform l (map (cell l row info) [0..<length fieldnames]) tr" by simp
qed

lemma body_perform:
  "for_each (enumerate 0 infos)
     (\<lambda>(row, info). for_each (enumerate 0 fieldnames)
        (\<lambda>(col, fieldname). write_cell l row info col fieldname)) =
   perform l (cells l infos)"
  unfolding cells_def
  by (rule ext, rule for_each_perform) (auto simp: row_perform)

lemma in_order_perform:
  "list_all2 (\<lambda>s a. s = perform l a) steps as \<Longrightarrow>
   in_order steps tr = perform l (concat as) tr"
proof (induction steps as arbitrary: tr rule: list_all2_induct)
  case Nil
  then show ?case by (simp add: in_order_def)
next
  case (Cons s steps a as)
  then show ?case
    by (simp add: in_order_def perform_append split: prod.splits option.splits)
qed

lemma header_loop_perform:
  "for_each (enumerate 0 fieldnames)
     (\<lambda>(i, fieldname). do_call l (Write 0 i fieldname header_format)) =
   perform l (map Inr (map (\<lambda>(i, fieldname). Write 0 i fieldname header_format)
     (enumerate 0 fieldnames)))"
proof (rule ext)
  fix tr
  have a: "for_each (enumerate 0 fieldnames)
     (\<lambda>(i, fieldname). do_call l (Write 0 i fieldname header_format)) tr =
    perform l (concat (map (\<lambda>(i, fieldname). [Inr (Write 0 i fieldname header_format)])
      (enumerate 0 fieldnames))) tr"
    by (rule for_each_perform) (auto simp: do_call_perform)
  have b: "concat (map (\<lambda>(i, fieldname). [Inr (Write 0 i fieldname header_format)]) xs) =
    map Inr (map (\<lambda>(i, fieldname). Write 0 i fieldname header_format) xs)" for xs :: "(nat \<times> str) list"
    by (induction xs) auto
  show "for_each (enumerate 0 fieldnames)
     (\<lambda>(i, fieldname). do_call l (Write 0 i fieldname header_format)) tr =
   perform l (map Inr (map (\<lambda>(i, fieldname). Write 0 i fieldname header_format)
     (enumerate 0 fieldnames))) tr"
    using a unfolding b .
qed

lemma date_width_loop_perform:
  "for_each (enumerate 0 fieldtypes)
     (\<lambda>(i, fieldtype). if fieldtype = date then do_call l (Set_column i i 13) else skip) =
   perform l [Inr (Set_column 2 2 13)]"
proof (rule ext)
  fix tr
  have a: "for_each (enumerate 0 fieldtypes)
     (\<lambda>(i, fieldtype). if fieldtype = date then do_call l (Set_column i i 13) else skip) tr =
    perform l (concat (map (\<lambda>(i, fieldtype).
      if fieldtype = date then [Inr (Set_column i i 13)] else []) (enumerate 0 fieldtypes))) tr"
    by (rule for_each_perform) (auto simp: do_call_perform skip_perform [of l])
  have b: "concat (map (\<lambda>(i, fieldtype).
      if fieldtype = date then [Inr (Set_column i i 13)] else []) (enumerate 0 fieldtypes)) =
      [Inr (Set_column 2 2 13)]"
    by (simp add: fieldtypes_def enumerate_eq_zip)
  show "for_each (enumerate 0 fieldtypes)
     (\<lambda>(i, fieldtype). if fieldtype = date then do_call l (Set_column i i 13) else skip) tr =
   perform l [Inr (Set_column 2 2 13)] tr"
    using a unfolding b .
qed

lemma name_width_loop_perform:
  "for_each (enumerate 0 fieldnames)
     (\<lambda>(i, fieldname).
        if fieldname = fund_name then do_call l (Set_column i i 22)
        else if fieldname = estimate_date then do_call l (Set_column i i 17)
        else if fieldname \<in> set [realtime_estimate, estimate_growth_rate]
          then do_call l (Set_column i i 11)
        else skip) =
   perform l [Inr (Set_column 0 0 22), Inr (Set_column 5 5 17), Inr (Set_column 6 6 11),
     Inr (Set_column 7 7 11)]"
proof (rule ext)
  fix tr
  have a: "for_each (enumerate 0 fieldnames)
     (\<lambda>(i, fieldname).
        if fieldname = fund_name then do_call l (Set_column i i 22)
        else if fieldname = estimate_date then do_call l (Set_column i i 17)
        else if fieldname \<in> set [realtime_estimate, estimate_growth_rate]
          then do_call l (Set_column i i 11)
        else skip) tr =
    perform l (concat (map (\<lambda>(i, fieldname).
        if fieldname = fund_name then [Inr (Set_column i i 22)]
        else if fieldname = estimate_date then [Inr (Set_column i i 17)]
        else if fieldname \<in> set [realtime_estimate, estimate_growth_rate]
          then [Inr (Set_column i i 11)]
        else []) (enumerate 0 fieldnames))) tr"
    by (rule for_each_perform) (auto simp: do_call_perform skip_perform [of l])
  have b: "concat (map (\<lambda>(i, fieldname).
        if fieldname = fund_name then [Inr (Set_column i i 22)]
        else if fieldname = estimate_date then [Inr (Set_column i i 17)]
        else if fieldname \<in> set [realtime_estimate, estimate_growth_rate]
          then [Inr (Set_column i i 11)]
        else []) (enumerate 0 fieldnames)) =
     [Inr (Set_column 0 0 22), Inr (Set_column 5 5 17), Inr (Set_column 6 6 11),
      Inr (Set_column 7 7 11)]"
    by (simp add: fieldnames_def fund_name_def estimate_date_def realtime_estimate_def
        estimate_growth_rate_def enumerate_eq_zip)
  show "for_each (enumerate 0 fieldnames)
     (\<lambda>(i, fieldname).
        if fieldname = fund_name then do_call l (Set_column i i 22)
        else if fieldname = estimate_date then do_call l (Set_column i i 17)
        else if fieldname \<in> set [realtime_estimate, estimate_growth_rate]
          then do_call l (Set_column i i 11)
        else skip) tr =
   perform l [Inr (Set_column 0 0 22), Inr (Set_column 5 5 17), Inr (Set_column 6 6 11),
     Inr (Set_column 7 7 11)] tr"
    using a unfolding b .
qed

lemma try_block_plan:
  "try_block l infos xlsx_filename tr = perform l (plan l infos xlsx_filename) tr"
proof -
  let ?as = "[[Inr (Workbook xlsx_filename)], [Inr Add_worksheet],
    [Inr (Add_format header_format)], [Inr (Add_format date_format)],
    map Inr (map (\<lambda>(i, fieldname). Write 0 i fieldname header_format)
      (enumerate 0 fieldnames)),
    [Inr (Set_column 2 2 13)],
    [Inr (Set_column 0 0 22), Inr (Set_column 5 5 17), Inr (Set_column 6 6 11),
     Inr (Set_column 7 7 11)],
    cells l infos, [Inr Close]]"
  have a: "try_block l infos xlsx_filename tr = perform l (concat ?as) tr"
    unfolding try_block_def
    by (rule in_order_perform)
      (simp only: header_loop_perform date_width_loop_perform name_width_loop_perform
        body_perform, simp only: do_call_perform list_all2_Cons list_all2_Nil simp_thms)
  have b: "concat ?as = plan l infos xlsx_filename"
    by (simp add: plan_def header_calls_def)
  show ?thesis using a unfolding b .
qed

lemma perform_trace:
  "perform l ds tr = (r, tr') \<Longrightarrow>
   \<exists>cs. tr' = tr @ cs \<and> prefix (map Inr cs) ds \<and>
        (r = None \<longrightarrow> map Inr cs = ds) \<and> (r \<noteq> None \<longrightarrow> length cs < length ds)"
proof (induction l ds tr rule: perform.induct)
  case (1 l tr)
  then show ?case by simp
next
  case (2 l e ds tr)
  then show ?case by auto
next
  case (3 l c ds tr)
  show ?case
  proof (cases "fault l tr c")
    case None
    with 3 obtain cs where cs: "tr' = (tr @ [c]) @ cs" "prefix (map Inr cs) ds"
      "r = None \<longrightarrow> map Inr cs = ds" "r \<noteq> None \<longrightarrow> length cs < length ds"
      by fastforce
    show ?thesis
      by (rule exI [of _ "c # cs"]) (use cs in auto)
  next
    case (Some n)
    with 3 show ?thesis by auto
  qed
qed

lemma perform_cause:
  "perform l ds tr = (Some e, tr') \<Longrightarrow> Inl e \<in> set ds \<or> (\<exists>n. e = External n)"
  by (induction l ds tr rule: perform.induct) (auto split: option.splits)

lemma perform_no_fault:
  "(\<And>tr c. fault l tr c = None) \<Longrightarrow> fst (perform l ds tr) = first_error ds"
  by (induction l ds tr rule: perform.induct) auto

lemma perform_error_fails:
  assumes "Inl e \<in> set ds"
  shows "fst (perform l ds tr) \<noteq> None"
proof
  assume n: "fst (perform l ds tr) = None"
  obtain tr' where "perform l ds tr = (None, tr')"
    using n by (cases "perform l ds tr") auto
  from perform_trace [OF this] obtain cs where "map Inr cs = ds" by auto
  with assms show False by auto
qed

lemma column_width_none:
  "(\<And>c. c \<in> set ys \<Longrightarrow> set_width c col = None) \<Longrightarrow> column_width ys col = None"
  by (induction ys) auto

lemma column_width_append:
  "(\<And>c. c \<in> set ys \<Longrightarrow> set_width c col = None) \<Longrightarrow>
   column_width (xs @ ys) col = column_width xs col"
  by (induction xs) (auto simp: column_width_none split: option.splits)

lemma cell_call_kind:
  "cell l row info col = Inr c \<Longrightarrow> set_width c k = None \<and> \<not> is_header_cell c \<and> c \<noteq> Close"
  by (auto simp: cell_def set_width_def is_header_cell_def
      split: option.splits ExcelCellDataType.splits)

lemma cell_error_kind:
  "cell l row info col = Inl e \<Longrightarrow> e = KeyError (fieldnames ! col) \<or> e = ValueError"
  by (auto simp: cell_def split: option.splits ExcelCellDataType.splits)

lemma in_cells:
  "d \<in> set (cells l infos) \<longleftrightarrow>
     (\<exists>row col. row < length infos \<and> col < length fieldnames \<and>
        d = cell l row (infos ! row) col)"
proof
  assume "d \<in> set (cells l infos)"
  then obtain row info col where m: "(row, info) \<in> set (enumerate 0 infos)"
    and c: "col < length fieldnames" and d: "d = cell l row info col"
    by (auto simp: cells_def)
  from m have "row < length infos" "info = infos ! row"
    by (auto simp: in_set_enumerate_eq)
  with c d show "\<exists>row col. row < length infos \<and> col < length fieldnames \<and>
        d = cell l row (infos ! row) col" by blast
next
  assume "\<exists>row col. row < length infos \<and> col < length fieldnames \<and>
        d = cell l row (infos ! row) col"
  then obtain row col where r: "row < length infos" and c: "col < length fieldnames"
    and d: "d = cell l row (infos ! row) col" by blast
  from r have m: "(row, infos ! row) \<in> set (enumerate 0 infos)"
    by (simp add: in_set_enumerate_eq)
  from m c d show "d \<in> set (cells l infos)"
    unfolding cells_def by (auto intro!: bexI [where x = "(row, infos ! row)"])
qed

lemma write_to_xlsx_perform:
  "write_to_xlsx l infos fn =
    (case perform l (plan l infos fn) [] of
       (None, tr) \<Rightarrow> (None, tr)
     | (Some exc, tr) \<Rightarrow> (Some (RuntimeError export_error_message (Some exc)), tr))"
  by (simp add: write_to_xlsx_def try_block_plan)


lemma length_header_calls: "length (header_calls fn) = 18"
  by (simp add: header_calls_def fieldnames_def)

lemma cells_members:
  "Inr c \<in> set (cells l infos) \<Longrightarrow>
     c \<noteq> Close \<and> set_width c k = None \<and> \<not> is_header_cell c \<and> (\<forall>p. c \<noteq> Workbook p)"
proof -
  assume "Inr c \<in> set (cells l infos)"
  then obtain row col where e: "cell l row (infos ! row) col = Inr c"
    by (auto simp: in_cells)
  from cell_call_kind [OF e, of k] have "c \<noteq> Close" "set_width c k = None" "\<not> is_header_cell c"
    by simp_all
  moreover have "c \<noteq> Workbook p" for p
    using e by (auto simp: cell_def split: option.splits ExcelCellDataType.splits)
  ultimately show ?thesis by simp
qed

lemma write_to_xlsx_success:
  assumes "fst (write_to_xlsx l infos fn) = None"
  shows "\<exists>body. snd (write_to_xlsx l infos fn) = header_calls fn @ body @ [Close] \<and>
           map Inr body = cells l infos"
proof -
  obtain r tr where p: "perform l (plan l infos fn) [] = (r, tr)"
    by (cases "perform l (plan l infos fn) []") auto
  with assms have r: "r = None" and s: "snd (write_to_xlsx l infos fn) = tr"
    by (auto simp: write_to_xlsx_perform split: option.splits)
  from perform_trace [OF p] r have m: "map Inr tr = plan l infos fn" by auto
  then have m': "map Inr tr = map Inr (header_calls fn) @ (cells l infos @ [Inr Close])"
    by (simp add: plan_def)
  from m' [unfolded map_eq_append_conv] obtain us rest where tr: "tr = us @ rest"
    and u: "map Inr (header_calls fn) = (map Inr us :: (exn + ('a, 'b) call) list)"
    and v: "cells l infos @ [Inr Close] = map Inr rest" by blast
  have "map Inr rest = cells l infos @ [Inr Close]" using v by simp
  then have "\<exists>vs ws. rest = vs @ ws \<and> cells l infos = map Inr vs \<and>
      [Inr Close :: exn + ('a, 'b) call] = map Inr ws"
    unfolding map_eq_append_conv .
  then obtain vs ws where rest: "rest = vs @ ws"
    and vs: "cells l infos = map Inr vs" and ws: "[Inr Close :: exn + ('a, 'b) call] = map Inr ws"
    by (elim exE conjE)
  from u have "us = header_calls fn" by (simp add: inj_map_eq_map)
  moreover from ws have "ws = [Close]" by auto
  ultimately have "tr = header_calls fn @ vs @ [Close]" using tr rest by simp
  with vs s show ?thesis by auto
qed

lemma write_to_xlsx_failed:
  assumes "fst (write_to_xlsx l infos fn) \<noteq> None"
  shows "\<exists>cause. fst (write_to_xlsx l infos fn) =
             Some (RuntimeError export_error_message (Some cause)) \<and>
           fst (try_block l infos fn []) = Some cause \<and>
           (Inl cause \<in> set (cells l infos) \<or> (\<exists>n. cause = External n)) \<and>
           prefix (map Inr (snd (write_to_xlsx l infos fn)))
             (map Inr (header_calls fn) @ cells l infos)"
proof -
  obtain r tr where p: "perform l (plan l infos fn) [] = (r, tr)"
    by (cases "perform l (plan l infos fn) []") auto
  with assms obtain cause where r: "r = Some cause"
    and f: "fst (write_to_xlsx l infos fn) = Some (RuntimeError export_error_message (Some cause))"
    and s: "snd (write_to_xlsx l infos fn) = tr"
    by (cases r) (auto simp: write_to_xlsx_perform)
  have t: "fst (try_block l infos fn []) = Some cause"
    using p r by (simp add: try_block_plan)
  from perform_cause [of l "plan l infos fn" "[]" cause tr] p r
  have c: "Inl cause \<in> set (cells l infos) \<or> (\<exists>n. cause = External n)"
    by (auto simp: plan_def)
  from perform_trace [OF p] r have pre: "prefix (map Inr tr) (plan l infos fn)"
    and len: "length tr < length (plan l infos fn)" by auto
  have "plan l infos fn = (map Inr (header_calls fn) @ cells l infos) @ [Inr Close]"
    by (simp add: plan_def)
  with pre have "map Inr tr = plan l infos fn \<or>
      prefix (map Inr tr) (map Inr (header_calls fn) @ cells l infos)"
    by (simp only: prefix_snoc)
  moreover have "map Inr tr \<noteq> plan l infos fn"
    using len by (metis length_map less_irrefl)
  ultimately have "prefix (map Inr tr) (map Inr (header_calls fn) @ cells l infos)" by blast
  with f t c s show ?thesis by auto
qed



lemma example_lib_no_fault: "fault example_lib tr c = None"
  by (simp add: example_lib_def)



section \<open>Claims about the spreadsheet\<close>




lemma perform_no_fault_full:
  "(\<And>tr c. fault l tr c = None) \<Longrightarrow>
   perform l ds tr = (first_error ds, tr @ calls_before_error ds)"
  by (induction l ds tr rule: perform.induct) auto

lemma first_error_append:
  "first_error (ds @ es) = (case first_error ds of None \<Rightarrow> first_error es | Some e \<Rightarrow> Some e)"
  by (induction ds rule: first_error.induct) auto

lemma first_error_calls: "first_error (map Inr cs) = None"
  by (induction cs) auto

lemma calls_before_error_append:
  "calls_before_error (ds @ es) =
    (case first_error ds of
       None \<Rightarrow> calls_before_error ds @ calls_before_error es
     | Some e \<Rightarrow> calls_before_error ds)"
  by (induction ds rule: first_error.induct) (auto split: option.splits)

lemma calls_before_error_calls: "calls_before_error (map Inr cs) = cs"
  by (induction cs) auto

lemma write_to_xlsx_no_fault:
  assumes "\<And>tr c. fault l tr c = None"
  shows "write_to_xlsx l infos fn =
    (map_option (\<lambda>exc. RuntimeError export_error_message (Some exc))
       (first_error (cells l infos)),
     header_calls fn @ calls_before_error (cells l infos) @
       (if first_error (cells l infos) = None then [Close] else []))"
proof -
  have "perform l (plan l infos fn) [] =
    (first_error (plan l infos fn), calls_before_error (plan l infos fn))"
    using perform_no_fault_full [OF assms, of "plan l infos fn" "[]"] by simp
  moreover have "first_error (plan l infos fn) = first_error (cells l infos)"
    by (simp add: plan_def first_error_append first_error_calls split: option.splits)
  moreover have "calls_before_error (plan l infos fn) =
     header_calls fn @ calls_before_error (cells l infos) @
       (if first_error (cells l infos) = None then [Close] else [])"
    by (simp add: plan_def calls_before_error_append first_error_calls
        calls_before_error_calls split: option.splits)
  ultimately show ?thesis
    by (simp add: write_to_xlsx_perform split: option.splits)
qed

lemma cell_by_type:
  "(info (fieldnames ! col) = None \<longrightarrow>
      cell l row info col = Inl (KeyError (fieldnames ! col))) \<and>
   (\<forall>v. info (fieldnames ! col) = Some v \<and> fieldtypes ! col = string \<longrightarrow>
      cell l row info col = Inr (Write_string (row + 1) col v)) \<and>
   (\<forall>v. info (fieldnames ! col) = Some v \<and> fieldtypes ! col = number \<longrightarrow>
      cell l row info col =
        (case py_float l v of
           None \<Rightarrow> Inl ValueError
         | Some x \<Rightarrow> Inr (Write_number (row + 1) col x))) \<and>
   (\<forall>v. info (fieldnames ! col) = Some v \<and> fieldtypes ! col = date \<longrightarrow>
      cell l row info col =
        (case strptime l v (ascii ''%Y-%m-%d'') of
           None \<Rightarrow> Inl ValueError
         | Some d \<Rightarrow>
             Inr (Write_datetime (row + 1) col d
               [(ascii ''num_format'', FStr (ascii ''yyyy-mm-dd''))])))"
  by (auto simp: cell_def date_format_def split: option.splits)

lemma write_to_xlsx_cells_trace:
  "(fst (write_to_xlsx l infos fn) = None \<longrightarrow>
      (\<exists>body. snd (write_to_xlsx l infos fn) = header_calls fn @ body @ [Close] \<and>
         map Inr body = cells l infos)) \<and>
   (\<forall>row col e. row < length infos \<and> col < length fieldnames \<and>
       cell l row (infos ! row) col = Inl e \<longrightarrow> fst (write_to_xlsx l infos fn) \<noteq> None) \<and>
   (\<forall>cause. fst (write_to_xlsx l infos fn) =
        Some (RuntimeError export_error_message (Some cause)) \<longrightarrow>
      (\<exists>n. cause = External n) \<or>
      (\<exists>row col. row < length infos \<and> col < length fieldnames \<and>
         cell l row (infos ! row) col = Inl cause)) \<and>
   ((\<forall>tr c. fault l tr c = None) \<longrightarrow>
      write_to_xlsx l infos fn =
        (map_option (\<lambda>exc. RuntimeError export_error_message (Some exc))
           (first_error (cells l infos)),
         header_calls fn @ calls_before_error (cells l infos) @
           (if first_error (cells l infos) = None then [Close] else [])))"
proof (intro conjI allI impI)
  assume "fst (write_to_xlsx l infos fn) = None"
  then show "\<exists>body. snd (write_to_xlsx l infos fn) = header_calls fn @ body @ [Close] \<and>
         map Inr body = cells l infos"
    by (rule write_to_xlsx_success)
next
  fix row col e
  assume h: "row < length infos \<and> col < length fieldnames \<and>
       cell l row (infos ! row) col = Inl e"
  have "\<exists>r c. r < length infos \<and> c < length fieldnames \<and> Inl e = cell l r (infos ! r) c"
    using h by (intro exI [of _ row] exI [of _ col]) simp
  then have "Inl e \<in> set (cells l infos)" by (simp only: in_cells)
  then have "Inl e \<in> set (plan l infos fn)" by (simp add: plan_def)
  from perform_error_fails [OF this, of l "[]"]
  show "fst (write_to_xlsx l infos fn) \<noteq> None"
    by (auto simp: write_to_xlsx_perform split: prod.splits option.splits)
next
  fix cause
  assume f: "fst (write_to_xlsx l infos fn) =
        Some (RuntimeError export_error_message (Some cause))"
  then have "fst (write_to_xlsx l infos fn) \<noteq> None" by simp
  from write_to_xlsx_failed [OF this] f
  have "Inl cause \<in> set (cells l infos) \<or> (\<exists>n. cause = External n)" by auto
  then show "(\<exists>n. cause = External n) \<or>
      (\<exists>row col. row < length infos \<and> col < length fieldnames \<and>
         cell l row (infos ! row) col = Inl cause)"
    unfolding in_cells by metis
next
  assume "\<forall>tr c. fault l tr c = None"
  then show "write_to_xlsx l infos fn =
        (map_option (\<lambda>exc. RuntimeError export_error_message (Some exc))
           (first_error (cells l infos)),
         header_calls fn @ calls_before_error (cells l infos) @
           (if first_error (cells l infos) = None then [Close] else []))"
    by (intro write_to_xlsx_no_fault) simp
qed

text \<open>
  C5. For every list of records and every library: the body of the export goes through
  the records in order and, in each, through the fields in schema order. For each field
  the value is looked up in the record by the field's name; a missing value is an error
  (\<open>KeyError\<close>, the missing-field error of the specification); a value of a string
  field is written raw with \<open>write_string\<close>; a value of a number field is parsed as
  a floating-point number and written with \<open>write_number\<close>, and is an error
  (\<open>ValueError\<close>) when it does not parse; a value of a date field is parsed with the
  format \<open>%Y-%m-%d\<close> and written with the display format \<open>yyyy-mm-dd\<close>, and is an
  error (\<open>ValueError\<close>) when it does not match. An export that succeeds has made
  exactly these writes, in this order, between the header and the close; an export with
  an erroneous cell fails; the cause of a failed export is such an error or was raised by
  the library; and when the library raises nowhere, the export makes the writes that
  come before the first erroneous cell and fails with that cell's error, wrapped.
\<close>

theorem write_to_xlsx_cells:
  "((fst (write_to_xlsx l infos fn) = None \<longrightarrow>
      (\<exists>body. snd (write_to_xlsx l infos fn) = header_calls fn @ body @ [Close] \<and>
         map Inr body = cells l infos)) \<and>
   (\<forall>row col e. row < length infos \<and> col < length fieldnames \<and>
       cell l row (infos ! row) col = Inl e \<longrightarrow> fst (write_to_xlsx l infos fn) \<noteq> None) \<and>
   (\<forall>cause. fst (write_to_xlsx l infos fn) =
        Some (RuntimeError export_error_message (Some cause)) \<longrightarrow>
      (\<exists>n. cause = External n) \<or>
      (\<exists>row col. row < length infos \<and> col < length fieldnames \<and>
         cell l row (infos ! row) col = Inl cause)) \<and>
   ((\<forall>tr c. fault l tr c = None) \<longrightarrow>
      write_to_xlsx l infos fn =
        (map_option (\<lambda>exc. RuntimeError export_error_message (Some exc))
           (first_error (cells l infos)),
         header_calls fn @ calls_before_error (cells l infos) @
           (if first_error (cells l infos) = None then [Close] else [])))) \<and>
   (\<forall>row info col.
      (info (fieldnames ! col) = None \<longrightarrow>
         cell l row info col = Inl (KeyError (fieldnames ! col))) \<and>
      (\<forall>v. info (fieldnames ! col) = Some v \<and> fieldtypes ! col = string \<longrightarrow>
         cell l row info col = Inr (Write_string (row + 1) col v)) \<and>
      (\<forall>v. info (fieldnames ! col) = Some v \<and> fieldtypes ! col = number \<longrightarrow>
         cell l row info col =
           (case py_float l v of
              None \<Rightarrow> Inl ValueError
            | Some x \<Rightarrow> Inr (Write_number (row + 1) col x))) \<and>
      (\<forall>v. info (fieldnames ! col) = Some v \<and> fieldtypes ! col = date \<longrightarrow>
         cell l row info col =
           (case strptime l v (ascii ''%Y-%m-%d'') of
              None \<Rightarrow> Inl ValueError
            | Some d \<Rightarrow>
                Inr (Write_datetime (row + 1) col d
                  [(ascii ''num_format'', FStr (ascii ''yyyy-mm-dd''))]))))"
  using write_to_xlsx_cells_trace [of l infos fn] cell_by_type [of _ _ l] by blast

lemma example_record_cells:
  "cells example_lib [example_record] =
    [Inr (Write_string 1 0 (ascii ''X'')), Inr (Write_string 1 1 (ascii ''000001'')),
     Inr (Write_datetime 1 2 (2023, 1, 15) date_format), Inr (Write_number 1 3 1234),
     Inr (Write_string 1 4 (ascii ''1%'')), Inr (Write_string 1 5 (ascii ''2023-01-16'')),
     Inr (Write_number 1 6 1234), Inr (Write_string 1 7 (ascii ''2%'')),
     Inr (Write_string 1 8 (ascii ''-''))]"
  by (simp add: cells_def cell_def example_record_def fieldnames_def
      fieldtypes_def example_lib_def ascii_def)

theorem write_to_xlsx_cells_witness:
  "write_to_xlsx example_lib [example_record] (ascii ''out.xlsx'') =
     (None,
      header_calls (ascii ''out.xlsx'') @
      [Write_string 1 0 (ascii ''X''), Write_string 1 1 (ascii ''000001''),
       Write_datetime 1 2 (2023, 1, 15) date_format, Write_number 1 3 1234,
       Write_string 1 4 (ascii ''1%''), Write_string 1 5 (ascii ''2023-01-16''),
       Write_number 1 6 1234, Write_string 1 7 (ascii ''2%''),
       Write_string 1 8 (ascii ''-''), Close]) \<and>
   cell example_lib 0 bad_record 3 = Inl ValueError \<and>
   fst (write_to_xlsx example_lib [bad_record] (ascii ''out.xlsx'')) \<noteq> None"
proof -
  have nf: "\<forall>tr c. fault example_lib tr c = None"
    by (simp add: example_lib_no_fault)
  from write_to_xlsx_cells [of example_lib "[example_record]" "ascii ''out.xlsx''"] nf
  have "write_to_xlsx example_lib [example_record] (ascii ''out.xlsx'') =
        (map_option (\<lambda>exc. RuntimeError export_error_message (Some exc))
           (first_error (cells example_lib [example_record])),
         header_calls (ascii ''out.xlsx'') @
           calls_before_error (cells example_lib [example_record]) @
           (if first_error (cells example_lib [example_record]) = None then [Close] else []))"
    by blast
  then have a: "write_to_xlsx example_lib [example_record] (ascii ''out.xlsx'') =
     (None,
      header_calls (ascii ''out.xlsx'') @
      [Write_string 1 0 (ascii ''X''), Write_string 1 1 (ascii ''000001''),
       Write_datetime 1 2 (2023, 1, 15) date_format, Write_number 1 3 1234,
       Write_string 1 4 (ascii ''1%''), Write_string 1 5 (ascii ''2023-01-16''),
       Write_number 1 6 1234, Write_string 1 7 (ascii ''2%''),
       Write_string 1 8 (ascii ''-''), Close])"
    by (simp add: example_record_cells)
  have b: "cell example_lib 0 bad_record 3 = Inl ValueError"
    by (simp add: cell_def bad_record_def fieldtypes_def example_lib_def ascii_def)
  have c: "(0::nat) < length [bad_record] \<and> (3::nat) < length fieldnames \<and>
      cell example_lib 0 ([bad_record] ! 0) 3 = Inl ValueError"
    using b by (simp add: fieldnames_def)
  from write_to_xlsx_cells [of example_lib "[bad_record]" "ascii ''out.xlsx''"] c
  have "fst (write_to_xlsx example_lib [bad_record] (ascii ''out.xlsx'')) \<noteq> None"
    by blast
  with a b show ?thesis by simp
qed

lemma column_width_header:
  "col < length fieldnames \<Longrightarrow> column_width (header_calls fn) col = spec_width col"
proof -
  assume "col < length fieldnames"
  then have "col < 9" by (simp add: fieldnames_def)
  then have "col = 0 \<or> col = 1 \<or> col = 2 \<or> col = 3 \<or> col = 4 \<or> col = 5 \<or> col = 6 \<or>
      col = 7 \<or> col = 8" by arith
  then show ?thesis
    by (elim disjE)
      (simp_all add: header_calls_def spec_width_def set_width_def fieldnames_def
        fieldtypes_def fund_name_def estimate_date_def realtime_estimate_def
        estimate_growth_rate_def enumerate_eq_zip)
qed

lemma filter_header_calls:
  "filter is_header_cell (header_calls fn) =
     map (\<lambda>(i, fieldname). Write 0 i fieldname header_format) (enumerate 0 fieldnames)"
  by (simp add: header_calls_def is_header_cell_def fieldnames_def enumerate_eq_zip)

lemma body_calls:
  assumes "map Inr body = cells l infos" and "c \<in> set body"
  shows "set_width c k = None \<and> \<not> is_header_cell c"
proof -
  from assms have "Inr c \<in> set (cells l infos)"
    by (metis image_eqI set_map)
  from cells_members [OF this, of k] show ?thesis by simp
qed

text \<open>
  C9. An export that succeeds has begun with the header: after the workbook, the
  worksheet and the two formats are created, one header cell is written in row 0 for
  each field, in schema order, with the header format; then the column of the one date
  field gets the width 13, and the columns of the fund name, the estimate date, the
  real-time estimate and the estimate growth rate get the widths 22, 17, 11 and 11.
  No other call writes a header cell or sets a width, so that every column of a date
  field has the width 13, the four named columns have their widths, and every other
  column keeps the default width.
\<close>

theorem write_to_xlsx_header:
  "fst (write_to_xlsx l infos fn) = None \<longrightarrow>
     take 18 (snd (write_to_xlsx l infos fn)) =
       [Workbook fn, Add_worksheet, Add_format header_format, Add_format date_format] @
       map (\<lambda>(i, fieldname). Write 0 i fieldname header_format) (enumerate 0 fieldnames) @
       [Set_column 2 2 13, Set_column 0 0 22, Set_column 5 5 17, Set_column 6 6 11,
        Set_column 7 7 11] \<and>
     filter is_header_cell (snd (write_to_xlsx l infos fn)) =
       map (\<lambda>(i, fieldname). Write 0 i fieldname header_format) (enumerate 0 fieldnames) \<and>
     (\<forall>col. col < length fieldnames \<longrightarrow>
        column_width (snd (write_to_xlsx l infos fn)) col = spec_width col) \<and>
     map spec_width [0..<length fieldnames] =
       [Some 22, None, Some 13, None, None, Some 17, Some 11, Some 11, None]"
proof
  assume "fst (write_to_xlsx l infos fn) = None"
  from write_to_xlsx_success [OF this] obtain body where
    tr: "snd (write_to_xlsx l infos fn) = header_calls fn @ body @ [Close]" and
    b: "map Inr body = cells l infos" by blast
  have t: "take 18 (snd (write_to_xlsx l infos fn)) = header_calls fn"
    by (simp add: tr length_header_calls)
  have nb: "\<And>c k. c \<in> set (body @ [Close]) \<Longrightarrow> set_width c k = None"
    using body_calls [OF b] by (auto simp: set_width_def)
  have fb: "filter is_header_cell body = []"
    using body_calls [OF b] by (auto simp: filter_empty_conv)
  have f: "filter is_header_cell (snd (write_to_xlsx l infos fn)) =
       map (\<lambda>(i, fieldname). Write 0 i fieldname header_format) (enumerate 0 fieldnames)"
    by (simp add: tr filter_header_calls fb is_header_cell_def)
  have w: "column_width (snd (write_to_xlsx l infos fn)) col = spec_width col"
    if "col < length fieldnames" for col
    unfolding tr using column_width_append [of "body @ [Close]" col "header_calls fn"] nb
      column_width_header [OF that, of fn] by simp
  have m: "map spec_width [0..<length fieldnames] =
       [Some 22, None, Some 13, None, None, Some 17, Some 11, Some 11, None]"
    by (simp add: spec_width_def fieldnames_def fieldtypes_def fund_name_def
        estimate_date_def realtime_estimate_def estimate_growth_rate_def upt_rec)
  from t f w m show "take 18 (snd (write_to_xlsx l infos fn)) =
       [Workbook fn, Add_worksheet, Add_format header_format, Add_format date_format] @
       map (\<lambda>(i, fieldname). Write 0 i fieldname header_format) (enumerate 0 fieldnames) @
       [Set_column 2 2 13, Set_column 0 0 22, Set_column 5 5 17, Set_column 6 6 11,
        Set_column 7 7 11] \<and>
     filter is_header_cell (snd (write_to_xlsx l infos fn)) =
       map (\<lambda>(i, fieldname). Write 0 i fieldname header_format) (enumerate 0 fieldnames) \<and>
     (\<forall>col. col < length fieldnames \<longrightarrow>
        column_width (snd (write_to_xlsx l infos fn)) col = spec_width col) \<and>
     map spec_width [0..<length fieldnames] =
       [Some 22, None, Some 13, None, None, Some 17, Some 11, Some 11, None]"
    by (simp add: header_calls_def)
qed

lemma example_empty_export:
  "write_to_xlsx example_lib [] fn = (None, header_calls fn @ [Close])"
  using write_to_xlsx_no_fault [of example_lib "[]" fn]
  by (simp add: example_lib_no_fault cells_def)

theorem write_to_xlsx_header_witness:
  "fst (write_to_xlsx example_lib [] (ascii ''out.xlsx'')) = None \<and>
   column_width (snd (write_to_xlsx example_lib [] (ascii ''out.xlsx''))) 2 = Some 13 \<and>
   column_width (snd (write_to_xlsx example_lib [] (ascii ''out.xlsx''))) 1 = None"
proof -
  have a: "fst (write_to_xlsx example_lib [] (ascii ''out.xlsx'')) = None"
    by (simp add: example_empty_export)
  have l: "(2::nat) < length fieldnames" "(1::nat) < length fieldnames"
    by (simp_all add: fieldnames_def)
  have s: "spec_width 2 = Some 13" "spec_width 1 = None"
    by (simp_all add: spec_width_def fieldnames_def fieldtypes_def fund_name_def
        estimate_date_def realtime_estimate_def estimate_growth_rate_def)
  from write_to_xlsx_header [of example_lib "[]" "ascii ''out.xlsx''"] a
  have "\<forall>col. col < length fieldnames \<longrightarrow>
        column_width (snd (write_to_xlsx example_lib [] (ascii ''out.xlsx''))) col =
          spec_width col" by blast
  with l s a show ?thesis by simp
qed

lemma write_cell_result:
  assumes "col < length fieldnames"
  shows "fst (write_cell l row info col (fieldnames ! col) tr) = None \<or>
         (\<exists>n. fst (write_cell l row info col (fieldnames ! col) tr) = Some (External n)) \<or>
         fst (write_cell l row info col (fieldnames ! col) tr) =
           Some (KeyError (fieldnames ! col)) \<or>
         fst (write_cell l row info col (fieldnames ! col) tr) = Some ValueError"
proof (cases "cell l row info col")
  case (Inl e)
  with cell_error_kind [OF Inl] show ?thesis
    by (auto simp: write_cell_perform [OF assms])
next
  case (Inr c)
  then show ?thesis
    by (auto simp: write_cell_perform [OF assms] split: option.splits)
qed

text \<open>
  C10. \<open>fieldnames\<close> and \<open>fieldtypes\<close> have the same length and the field names are
  distinct; every column index of the body loop is in range for \<open>fieldtypes\<close> and finds
  one of the three cases there. Hence, for every record, row and column of the loop, the
  body neither raises the \<open>IndexError\<close> of an index out of range nor reaches the final
  \<open>else\<close> branch with its \<open>RuntimeError("Unreachable")\<close>, and no export fails with
  either of them as its cause.
\<close>

theorem unreachable_branch:
  "length fieldnames = length fieldtypes \<and> distinct fieldnames \<and>
   (\<forall>col. col < length fieldnames \<longrightarrow>
      col < length fieldtypes \<and>
      (fieldtypes ! col = string \<or> fieldtypes ! col = number \<or> fieldtypes ! col = date)) \<and>
   (\<forall>col. col < length fieldnames \<longrightarrow>
      fst (write_cell l row info col (fieldnames ! col) tr) \<noteq>
        Some (RuntimeError (ascii ''Unreachable'') None) \<and>
      fst (write_cell l row info col (fieldnames ! col) tr) \<noteq> Some IndexError) \<and>
   fst (write_to_xlsx l infos fn) \<noteq>
     Some (RuntimeError export_error_message
       (Some (RuntimeError (ascii ''Unreachable'') None))) \<and>
   fst (write_to_xlsx l infos fn) \<noteq> Some (RuntimeError export_error_message (Some IndexError))"
proof (intro conjI allI impI)
  show "length fieldnames = length fieldtypes"
    by (simp add: fieldnames_def fieldtypes_def)
  show "distinct fieldnames"
    by (simp add: fieldnames_def)
  show "col < length fieldtypes" if "col < length fieldnames" for col
    using that by (simp add: fieldnames_def fieldtypes_def)
  show "fieldtypes ! col = string \<or> fieldtypes ! col = number \<or> fieldtypes ! col = date"
    if "col < length fieldnames" for col
    by (cases "fieldtypes ! col") simp_all
  show "fst (write_cell l row info col (fieldnames ! col) tr) \<noteq>
        Some (RuntimeError (ascii ''Unreachable'') None)" if "col < length fieldnames" for col
    using write_cell_result [OF that, of l row info tr] by auto
  show "fst (write_cell l row info col (fieldnames ! col) tr) \<noteq> Some IndexError"
    if "col < length fieldnames" for col
    using write_cell_result [OF that, of l row info tr] by auto
  have c: "cause \<noteq> RuntimeError (ascii ''Unreachable'') None \<and> cause \<noteq> IndexError"
    if "fst (write_to_xlsx l infos fn) = Some (RuntimeError export_error_message (Some cause))"
    for cause
  proof -
    from that have "fst (write_to_xlsx l infos fn) \<noteq> None" by simp
    from write_to_xlsx_failed [OF this] that
    have "Inl cause \<in> set (cells l infos) \<or> (\<exists>n. cause = External n)" by auto
    then show ?thesis
    proof
      assume "Inl cause \<in> set (cells l infos)"
      then obtain r k where "cell l r (infos ! r) k = Inl cause"
        unfolding in_cells by metis
      from cell_error_kind [OF this] show ?thesis by auto
    next
      assume "\<exists>n. cause = External n"
      then show ?thesis by auto
    qed
  qed
  from c show "fst (write_to_xlsx l infos fn) \<noteq>
     Some (RuntimeError export_error_message
       (Some (RuntimeError (ascii ''Unreachable'') None)))" by blast
  from c show "fst (write_to_xlsx l infos fn) \<noteq>
     Some (RuntimeError export_error_message (Some IndexError))" by blast
qed

theorem unreachable_branch_witness:
  "(3::nat) < length fieldnames \<and> fieldtypes ! 3 = number \<and>
   fst (write_cell example_lib 0 bad_record 3 (fieldnames ! 3) []) = Some ValueError \<and>
   fst (write_cell example_lib 0 bad_record 3 (fieldnames ! 3) []) \<noteq> Some IndexError"
proof -
  have a: "(3::nat) < length fieldnames" by (simp add: fieldnames_def)
  have b: "fieldtypes ! 3 = number" by (simp add: fieldtypes_def)
  have c: "fst (write_cell example_lib 0 bad_record 3 (fieldnames ! 3) []) = Some ValueError"
    by (simp add: write_cell_def bad_record_def Let_def fieldtypes_def example_lib_def
        ascii_def raise_def)
  from unreachable_branch [of example_lib 0 bad_record "[]" "[]" "[]"] a
  have "fst (write_cell example_lib 0 bad_record 3 (fieldnames ! 3) []) \<noteq> Some IndexError"
    by blast
  with a b c show ?thesis by simp
qed

section \<open>Claims about the self-update\<close>

lemma gbk_rows:
  assumes "map_of gbk_table \<subseteq>\<^sub>m t"
  shows "t 0x57FA = Some [0xBB, 0xF9]" "t 0x91D1 = Some [0xBD, 0xF0]"
    "t 0x4FE1 = Some [0xD0, 0xC5]" "t 0x606F = Some [0xCF, 0xA2]"
    "t 0x751F = Some [0xC9, 0xFA]" "t 0x6210 = Some [0xB3, 0xC9]"
    "t 0x5668 = Some [0xC6, 0xF7]"
proof -
  have r: "t c = Some bs" if "map_of gbk_table c = Some bs" for c bs
    using assms that by (metis domI map_le_def)
  show "t 0x57FA = Some [0xBB, 0xF9]" by (rule r) (simp add: gbk_table_def)
  show "t 0x91D1 = Some [0xBD, 0xF0]" by (rule r) (simp add: gbk_table_def)
  show "t 0x4FE1 = Some [0xD0, 0xC5]" by (rule r) (simp add: gbk_table_def)
  show "t 0x606F = Some [0xCF, 0xA2]" by (rule r) (simp add: gbk_table_def)
  show "t 0x751F = Some [0xC9, 0xFA]" by (rule r) (simp add: gbk_table_def)
  show "t 0x6210 = Some [0xB3, 0xC9]" by (rule r) (simp add: gbk_table_def)
  show "t 0x5668 = Some [0xC6, 0xF7]" by (rule r) (simp add: gbk_table_def)
qed

lemma encode_name:
  "map_of gbk_table \<subseteq>\<^sub>m t \<Longrightarrow>
   encode_gbk t RELEASE_EXECUTABLE_NAME =
     Inr [0xBB, 0xF9, 0xBD, 0xF0, 0xD0, 0xC5, 0xCF, 0xA2, 0xC9, 0xFA, 0xB3, 0xC9, 0xC6, 0xF7,
          0x2E, 0x65, 0x78, 0x65]"
  by (simp add: RELEASE_EXECUTABLE_NAME_def gbk_rows)

lemma repair_name:
  "map_of gbk_table \<subseteq>\<^sub>m t \<Longrightarrow> name_repair t RELEASE_EXECUTABLE_NAME = Inr stored_name"
  by (simp add: name_repair_def encode_name decode_cp437_def cp437_high_def stored_name_def)

lemma splitext_name:
  "splitext pf RELEASE_EXECUTABLE_NAME = (base_name, ascii ''.exe'')"
  by (cases pf)
    (simp_all add: splitext_def rfind_def seps_def RELEASE_EXECUTABLE_NAME_def ascii_def
      base_name_def upt_rec Let_def)

lemma parse_version: "parse_version_number version = Inr (0, 2, 0)"
  by (simp add: version_def ascii_def parse_version_number_def match_version_def
      strip_v_def digits_def dot_def py_int_def int_max_str_digits_def is_digit_below
      decimal_value_ascii Let_def)

lemma tuple_gt_lex:
  "tuple_gt (a1, a2, a3) (b1, b2, b3) \<longleftrightarrow>
     b1 < a1 \<or> (a1 = b1 \<and> (b2 < a2 \<or> (a2 = b2 \<and> b3 < a3)))"
  by (auto simp: tuple_gt_def)

lemma tuple_gt_compare:
  "(tuple_gt x y \<longleftrightarrow> compare x y = Greater) \<and> (tuple_gt y x \<longleftrightarrow> compare x y = Less) \<and>
   (x = y \<longleftrightarrow> compare x y = Equal)"
  by (cases x; cases y) (auto simp: tuple_gt_def compare_def)

lemma ask_output: "snd (snd (snd (ask h v input fs out))) \<noteq> []"
  by (induction input arbitrary: out) (auto simp: Let_def split: prod.splits option.splits)

lemma update_success:
  assumes "fst (update h v fs) = None" and "map_of gbk_table \<subseteq>\<^sub>m gbk h"
  shows "\<exists>content members data.
    get_latest_released_asset (network h) RELEASE_ASSET_NAME = Inr content \<and>
    zip_members h content = Inr members \<and> members stored_name = Some data \<and>
    snd (update h v fs) =
      cleanup (tempdir h)
        ((((fs(Slash (tempdir h) RELEASE_ASSET_NAME \<mapsto> content))
             (Slash (tempdir h) stored_name \<mapsto> data))
             (Slash (tempdir h) stored_name := None))
             (Slash (cwd h) (base_name @ v @ ascii ''.exe'') \<mapsto> data))"
  using assms
  by (auto simp: update_def update_body_def write_bytes_def zip_extract_def move_def
      repair_name splitext_name Let_def
      split: option.splits sum.splits prod.splits if_splits)


lemma example_host_version:
  "get_latest_released_version (network example_host) = Inr (ascii ''v0.3.0'')"
  by (simp add: example_host_def get_latest_released_version_def)

lemma parse_example: "parse_version_number (ascii ''v0.3.0'') = Inr (0, 3, 0)"
  by (simp add: ascii_def parse_version_number_def match_version_def
      strip_v_def digits_def dot_def py_int_def int_max_str_digits_def is_digit_below
      decimal_value_ascii Let_def)

lemma example_asset:
  "get_latest_released_asset (network example_host) RELEASE_ASSET_NAME = Inr [80, 75]"
  by (simp add: example_host_def get_latest_released_asset_def ascii_def
      RELEASE_ASSET_NAME_def)


text \<open>
  C7. The comparison of \<open>check_update\<close>, \<open>>\<close> on the parsed triples, is the
  lexicographic order on (major, minor, patch): major decides, then minor, then patch. It
  agrees with the comparison of the specification: the first triple is greater exactly
  when \<open>compare\<close> says \<open>Greater\<close>. \<open>(1,2,3)\<close> is less than \<open>(1,3,0)\<close>, \<open>(2,0,0)\<close>
  is greater than \<open>(1,9,9)\<close>, and \<open>(1,0,0)\<close> equals \<open>(1,0,0)\<close>. The local version
  is \<open>(0,2,0)\<close>, and for every tag of the latest release that parses, \<open>check_update\<close>
  asks for the update (it prints its question and reads the answer) exactly when the
  remote version compares \<open>Greater\<close> with it; otherwise it returns at once and has
  printed and changed nothing.
\<close>

theorem update_available:
  "(tuple_gt (a1, a2, a3) (b1, b2, b3) \<longleftrightarrow>
      b1 < a1 \<or> (a1 = b1 \<and> (b2 < a2 \<or> (a2 = b2 \<and> b3 < a3)))) \<and>
   (tuple_gt x y \<longleftrightarrow> compare x y = Greater) \<and>
   (tuple_gt y x \<longleftrightarrow> compare x y = Less) \<and>
   (x = y \<longleftrightarrow> compare x y = Equal) \<and>
   compare (1, 2, 3) (1, 3, 0) = Less \<and>
   compare (2, 0, 0) (1, 9, 9) = Greater \<and>
   compare (1, 0, 0) (1, 0, 0) = Equal \<and>
   parse_version_number version = Inr (0, 2, 0) \<and>
   (\<forall>t remote.
      get_latest_released_version (network h) = Inr t \<and>
      parse_version_number t = Inr remote \<longrightarrow>
      (if compare remote (0, 2, 0) = Greater
       then check_update h input fs = ask h t input fs [] \<and>
            snd (snd (snd (check_update h input fs))) \<noteq> []
       else check_update h input fs = (Returned, fs, input, [])))"
proof -
  have c: "if compare remote (0, 2, 0) = Greater
       then check_update h input fs = ask h t input fs [] \<and>
            snd (snd (snd (check_update h input fs))) \<noteq> []
       else check_update h input fs = (Returned, fs, input, [])"
    if "get_latest_released_version (network h) = Inr t \<and>
      parse_version_number t = Inr remote" for t remote
    using that tuple_gt_compare [of remote "(0, 2, 0)"] ask_output [of h t input fs "[]"]
    by (simp add: check_update_def parse_version)
  have e: "compare (1, 2, 3) (1, 3, 0) = Less" "compare (2, 0, 0) (1, 9, 9) = Greater"
    "compare (1, 0, 0) (1, 0, 0) = Equal"
    by (simp_all add: compare_def)
  from tuple_gt_lex [of a1 a2 a3 b1 b2 b3] tuple_gt_compare [of x y] e parse_version c
  show ?thesis by blast
qed

theorem update_available_witness:
  "parse_version_number (ascii ''v0.3.0'') = Inr (0, 3, 0) \<and>
   compare (0, 3, 0) (0, 2, 0) = Greater \<and>
   check_update example_host [no] Map.empty =
     (Returned, Map.empty, [], [update_prompt example_host (ascii ''v0.3.0'')])"
proof -
  have g: "compare (0, 3, 0) (0, 2, 0) = Greater" by (simp add: compare_def)
  from update_available [of 0 0 0 0 0 0 "(0, 0, 0)" "(0, 0, 0)" example_host "[no]" Map.empty]
  have "get_latest_released_version (network example_host) = Inr (ascii ''v0.3.0'') \<and>
      parse_version_number (ascii ''v0.3.0'') = Inr (0, 3, 0) \<longrightarrow>
      (if compare (0, 3, 0) (0, 2, 0) = Greater
       then check_update example_host [no] Map.empty =
              ask example_host (ascii ''v0.3.0'') [no] Map.empty [] \<and>
            snd (snd (snd (check_update example_host [no] Map.empty))) \<noteq> []
       else check_update example_host [no] Map.empty = (Returned, Map.empty, [no], []))"
    by blast
  with example_host_version parse_example g
  have "check_update example_host [no] Map.empty =
      ask example_host (ascii ''v0.3.0'') [no] Map.empty []"
    by simp
  moreover have "strip no = no" "no \<noteq> yes"
    by (simp_all add: strip_def no_def yes_def is_space_def)
  ultimately have "check_update example_host [no] Map.empty =
     (Returned, Map.empty, [], [update_prompt example_host (ascii ''v0.3.0'')])"
    by (simp add: Let_def)
  with parse_example g show ?thesis by simp
qed



text \<open>
  C2. The repair of the name is a function of the name alone (and of the fixed tables of
  the two codecs): it encodes the name with \<open>gbk\<close> and decodes the bytes with
  \<open>cp437\<close>, and fails where the encoding fails.
  Applied to the name of the executable it gives the eighteen characters of
  \<open>stored_name\<close> (the fourteen bytes of the seven Chinese characters, each read as a
  character of the code page, and \<open>.exe\<close>). That is the name \<open>update\<close> looks up in the
  archive: an update that succeeds has found a member of this name, and, where the
  operating system does not fail, the archive is read and the asset is there, the update
  succeeds if the archive has a member of this name and fails with the \<open>KeyError\<close> of
  \<open>zipfile\<close> for this name if it has none.
\<close>

theorem name_repair_stored_name:
  "(map_of gbk_table \<subseteq>\<^sub>m t \<longrightarrow>
      encode_gbk t RELEASE_EXECUTABLE_NAME =
        Inr [0xBB, 0xF9, 0xBD, 0xF0, 0xD0, 0xC5, 0xCF, 0xA2, 0xC9, 0xFA, 0xB3, 0xC9, 0xC6,
             0xF7, 0x2E, 0x65, 0x78, 0x65] \<and>
      name_repair t RELEASE_EXECUTABLE_NAME =
        Inr [0x2557, 0x2219, 0x255C, 0x2261, 0x2568, 0x253C, 0x2567, 0xF3, 0x2554, 0xB7,
             0x2502, 0x2554, 0x255E, 0x2248, 0x2E, 0x65, 0x78, 0x65]) \<and>
   decode_cp437
     [0xBB, 0xF9, 0xBD, 0xF0, 0xD0, 0xC5, 0xCF, 0xA2, 0xC9, 0xFA, 0xB3, 0xC9, 0xC6, 0xF7,
      0x2E, 0x65, 0x78, 0x65] =
     [0x2557, 0x2219, 0x255C, 0x2261, 0x2568, 0x253C, 0x2567, 0xF3, 0x2554, 0xB7, 0x2502,
      0x2554, 0x255E, 0x2248, 0x2E, 0x65, 0x78, 0x65] \<and>
   (\<forall>s bs. encode_gbk t s = Inr bs \<longrightarrow> name_repair t s = Inr (decode_cp437 bs)) \<and>
   (\<forall>s e. encode_gbk t s = Inl e \<longrightarrow> name_repair t s = Inl e) \<and>
   (\<forall>h v fs. fst (update h v fs) = None \<and> map_of gbk_table \<subseteq>\<^sub>m gbk h \<longrightarrow>
      (\<exists>content members data.
         get_latest_released_asset (network h) RELEASE_ASSET_NAME = Inr content \<and>
         zip_members h content = Inr members \<and>
         members
           [0x2557, 0x2219, 0x255C, 0x2261, 0x2568, 0x253C, 0x2567, 0xF3, 0x2554, 0xB7,
            0x2502, 0x2554, 0x255E, 0x2248, 0x2E, 0x65, 0x78, 0x65] = Some data)) \<and>
   (\<forall>h v fs content members.
      map_of gbk_table \<subseteq>\<^sub>m gbk h \<and> (\<forall>k g. os_fault h k g = None) \<and>
      get_latest_released_asset (network h) RELEASE_ASSET_NAME = Inr content \<and>
      zip_members h content = Inr members \<longrightarrow>
      fst (update h v fs) =
        (case members
           [0x2557, 0x2219, 0x255C, 0x2261, 0x2568, 0x253C, 0x2567, 0xF3, 0x2554, 0xB7,
            0x2502, 0x2554, 0x255E, 0x2248, 0x2E, 0x65, 0x78, 0x65] of
           None \<Rightarrow>
             Some (KeyError (no_item_message
               [0x2557, 0x2219, 0x255C, 0x2261, 0x2568, 0x253C, 0x2567, 0xF3, 0x2554, 0xB7,
                0x2502, 0x2554, 0x255E, 0x2248, 0x2E, 0x65, 0x78, 0x65]))
         | Some data \<Rightarrow> None))"
proof -
  have d: "decode_cp437
     [0xBB, 0xF9, 0xBD, 0xF0, 0xD0, 0xC5, 0xCF, 0xA2, 0xC9, 0xFA, 0xB3, 0xC9, 0xC6, 0xF7,
      0x2E, 0x65, 0x78, 0x65] = stored_name"
    by (simp add: decode_cp437_def cp437_high_def stored_name_def)
  have g: "name_repair t s = Inr (decode_cp437 bs)" if "encode_gbk t s = Inr bs" for s bs
    using that by (simp add: name_repair_def)
  have g': "name_repair t s = Inl e" if "encode_gbk t s = Inl e" for s e
    using that by (simp add: name_repair_def)
  have u: "\<exists>content members data.
         get_latest_released_asset (network h) RELEASE_ASSET_NAME = Inr content \<and>
         zip_members h content = Inr members \<and> members stored_name = Some data"
    if "fst (update h v fs) = None \<and> map_of gbk_table \<subseteq>\<^sub>m gbk h" for h v fs
  proof -
    from that have a: "fst (update h v fs) = None" and b: "map_of gbk_table \<subseteq>\<^sub>m gbk h"
      by simp_all
    from update_success [OF a b] show ?thesis by blast
  qed
  have w: "fst (update h v fs) =
        (case members stored_name of
           None \<Rightarrow> Some (KeyError (no_item_message stored_name))
         | Some data \<Rightarrow> None)"
    if "map_of gbk_table \<subseteq>\<^sub>m gbk h \<and> (\<forall>k g. os_fault h k g = None) \<and>
      get_latest_released_asset (network h) RELEASE_ASSET_NAME = Inr content \<and>
      zip_members h content = Inr members" for h v fs content members
    using that
    by (simp add: update_def update_body_def write_bytes_def zip_extract_def move_def
        repair_name splitext_name Let_def split: option.splits)
  from encode_name [of t] repair_name [of t] d g g' u w show ?thesis
    unfolding stored_name_def by blast
qed

theorem name_repair_stored_name_witness:
  "fst (update example_host (ascii ''v0.3.0'') Map.empty) = None \<and>
   zip_members example_host [80, 75] = Inr [stored_name \<mapsto> [77, 90]]"
proof -
  have f: "map_of gbk_table \<subseteq>\<^sub>m gbk example_host \<and> (\<forall>k g. os_fault example_host k g = None)"
    by (simp add: example_host_def)
  have z: "zip_members example_host [80, 75] = Inr [stored_name \<mapsto> [77, 90]]"
    by (simp add: example_host_def)
  from name_repair_stored_name [of "map_of gbk_table"] f example_asset z
  have "fst (update example_host (ascii ''v0.3.0'') Map.empty) =
        (case [stored_name \<mapsto> [77, 90::nat]]
           [0x2557, 0x2219, 0x255C, 0x2261, 0x2568, 0x253C, 0x2567, 0xF3, 0x2554, 0xB7,
            0x2502, 0x2554, 0x255E, 0x2248, 0x2E, 0x65, 0x78, 0x65] of
           None \<Rightarrow>
             Some (KeyError (no_item_message
               [0x2557, 0x2219, 0x255C, 0x2261, 0x2568, 0x253C, 0x2567, 0xF3, 0x2554, 0xB7,
                0x2502, 0x2554, 0x255E, 0x2248, 0x2E, 0x65, 0x78, 0x65]))
         | Some data \<Rightarrow> None)"
    by blast
  then have "fst (update example_host (ascii ''v0.3.0'') Map.empty) = None"
    by (simp add: stored_name_def)
  with z show ?thesis by simp
qed

end
